theory Spec2Isabelle
  imports Complex_Main "HOL-Library.Sublist" "HOL-Library.Log_Nat" "HOL-Library.Multiset"
begin

section \<open>JavaScript values\<close>

text \<open>
  A JavaScript number is a binary64 floating-point number: a finite number, given by its
  exact value (a rational), negative zero, an infinity or NaN. \<open>Fin 0\<close> is the positive
  zero. The arithmetic is that of IEEE 754 with rounding to nearest, ties to even: the
  exact result of an operation is rounded to the nearest number with 53 significant bits
  and an exponent of at least -1022, and a result of magnitude \<open>2 ^ 1024\<close> or more is an
  infinity. The numbers in rows and metadata are taken to be binary64 numbers.
\<close>

datatype jsnum = Fin rat | NZero | PInf | NInf | NaN

definition pow2 :: "int \<Rightarrow> rat" where
  "pow2 e = (if 0 \<le> e then 2 ^ nat e else 1 / 2 ^ nat (- e))"

text \<open>The exponent of a positive rational: \<open>2 ^ e \<le> m < 2 ^ (e + 1)\<close>.\<close>

definition floorLog2 :: "rat \<Rightarrow> int" where
  "floorLog2 m =
     (let (p, q) = quotient_of m; e0 = bitlen p - bitlen q
      in if pow2 e0 \<le> m then e0 else e0 - 1)"

definition roundHalfEven :: "rat \<Rightarrow> int" where
  "roundHalfEven r =
     (let f = \<lfloor>r\<rfloor>; d = r - of_int f
      in if d < 1 / 2 then f else if 1 / 2 < d then f + 1 else if even f then f else f + 1)"

definition jzero :: "bool \<Rightarrow> jsnum" where
  "jzero negative = (if negative then NZero else Fin 0)"

definition jinf :: "bool \<Rightarrow> jsnum" where
  "jinf negative = (if negative then NInf else PInf)"

text \<open>
  The binary64 number nearest to a rational: what the result of an operation is rounded
  to, and the value of a decimal literal such as \<open>30.4\<close>. An exact zero is the positive
  zero here; the operations below give the zeros their signs.
\<close>

definition toDouble :: "rat \<Rightarrow> jsnum" where
  "toDouble x =
     (if x = 0 then Fin 0
      else
        (let m = \<bar>x\<bar>;
             e = max (floorLog2 m) (- 1022);
             q = pow2 (e - 52);
             n = roundHalfEven (m / q)
         in if 1024 \<le> e \<or> (e = 1023 \<and> n = 2 ^ 53) then jinf (x < 0)
            else if n = 0 then jzero (x < 0)
            else Fin (if x < 0 then - (of_int n * q) else of_int n * q)))"

text \<open>The sign bit of a number other than NaN, and the value of a finite number.\<close>

fun jnegative :: "jsnum \<Rightarrow> bool" where
  "jnegative (Fin a) = (a < 0)"
| "jnegative NZero = True"
| "jnegative NInf = True"
| "jnegative _ = False"

fun finVal :: "jsnum \<Rightarrow> rat" where
  "finVal (Fin a) = a"
| "finVal _ = 0"

definition isInf :: "jsnum \<Rightarrow> bool" where
  "isInf x = (x = PInf \<or> x = NInf)"

definition isZero :: "jsnum \<Rightarrow> bool" where
  "isZero x = (x = Fin 0 \<or> x = NZero)"

fun jneg :: "jsnum \<Rightarrow> jsnum" where
  "jneg (Fin a) = (if a = 0 then NZero else Fin (- a))"
| "jneg NZero = Fin 0"
| "jneg PInf = NInf"
| "jneg NInf = PInf"
| "jneg NaN = NaN"

text \<open>
  \<open>x + y\<close>: the sum of two zeros is negative only when both are; a sum that is exactly
  zero otherwise is the positive zero.
\<close>

definition jadd :: "jsnum \<Rightarrow> jsnum \<Rightarrow> jsnum" where
  "jadd x y =
     (if x = NaN \<or> y = NaN then NaN
      else if isInf x then (if isInf y \<and> x \<noteq> y then NaN else x)
      else if isInf y then y
      else if x = NZero \<and> y = NZero then NZero
      else toDouble (finVal x + finVal y))"

definition jsub :: "jsnum \<Rightarrow> jsnum \<Rightarrow> jsnum" where
  "jsub x y = jadd x (jneg y)"

definition jmul :: "jsnum \<Rightarrow> jsnum \<Rightarrow> jsnum" where
  "jmul x y =
     (if x = NaN \<or> y = NaN then NaN
      else if isInf x \<or> isInf y then
        (if isZero x \<or> isZero y then NaN else jinf (jnegative x \<noteq> jnegative y))
      else if isZero x \<or> isZero y then jzero (jnegative x \<noteq> jnegative y)
      else toDouble (finVal x * finVal y))"

definition jdiv :: "jsnum \<Rightarrow> jsnum \<Rightarrow> jsnum" where
  "jdiv x y =
     (if x = NaN \<or> y = NaN then NaN
      else if isInf x then (if isInf y then NaN else jinf (jnegative x \<noteq> jnegative y))
      else if isInf y then jzero (jnegative x \<noteq> jnegative y)
      else if isZero y then (if isZero x then NaN else jinf (jnegative x \<noteq> jnegative y))
      else if isZero x then jzero (jnegative x \<noteq> jnegative y)
      else toDouble (finVal x / finVal y))"

text \<open>
  The relational operators \<open>>\<close> and \<open><\<close>: false as soon as an operand is NaN; the two
  zeros are equal.
\<close>

fun jrank :: "jsnum \<Rightarrow> int" where
  "jrank NInf = - 1"
| "jrank PInf = 1"
| "jrank _ = 0"

definition jlt :: "jsnum \<Rightarrow> jsnum \<Rightarrow> bool" where
  "jlt x y =
     (x \<noteq> NaN \<and> y \<noteq> NaN \<and>
      (jrank x < jrank y \<or> (jrank x = jrank y \<and> finVal x < finVal y)))"

definition jgt :: "jsnum \<Rightarrow> jsnum \<Rightarrow> bool" where
  "jgt a b = jlt b a"

text \<open>\<open>Math.ceil\<close>: a number between -1 and 0 gives the negative zero.\<close>

fun jceil :: "jsnum \<Rightarrow> jsnum" where
  "jceil (Fin a) = (if - 1 < a \<and> a < 0 then NZero else Fin (of_int \<lceil>a\<rceil>))"
| "jceil x = x"

text \<open>
  \<open>parseFloat(x.toFixed(2))\<close>. For a finite \<open>x\<close> of magnitude below \<open>10 ^ 21\<close>,
  \<open>toFixed(2)\<close> takes the integer \<open>n\<close> for which \<open>n / 100\<close> is nearest to the exact
  magnitude of \<open>x\<close>, the larger one at a tie, and writes \<open>n / 100\<close> in decimal, with the
  sign of \<open>x\<close> when \<open>x < 0\<close>; \<open>parseFloat\<close> reads the nearest number back (\<open>"-0.00"\<close>
  as the negative zero). For the other numbers \<open>toFixed\<close> is the conversion to a string,
  which \<open>parseFloat\<close> reads back as the number itself.
\<close>

definition roundHalfUp :: "rat \<Rightarrow> int" where
  "roundHalfUp a = \<lfloor>a + 1 / 2\<rfloor>"

fun toFixed2 :: "jsnum \<Rightarrow> jsnum" where
  "toFixed2 (Fin a) =
     (if 10 ^ 21 \<le> \<bar>a\<bar> then Fin a
      else if a < 0 then
        (if roundHalfUp (- a * 100) = 0 then NZero
         else toDouble (- (of_int (roundHalfUp (- a * 100)) / 100)))
      else toDouble (of_int (roundHalfUp (a * 100)) / 100))"
| "toFixed2 NZero = Fin 0"
| "toFixed2 x = x"

text \<open>
  A cell of a parsed row, or any other value the code handles: a string, a number, a
  boolean, \<open>null\<close>, \<open>undefined\<close>, or one of the properties that every object
  inherits from \<open>Object.prototype\<close> (a function or an object, known by the name of
  the property). Strings are lists of 8-bit characters.
\<close>

datatype jsval = JStr string | JNum jsnum | JBool bool | JNull | JUndef | JObj string

fun truthyN :: "jsnum \<Rightarrow> bool" where
  "truthyN (Fin a) = (a \<noteq> 0)"
| "truthyN NZero = False"
| "truthyN NaN = False"
| "truthyN _ = True"

fun truthy :: "jsval \<Rightarrow> bool" where
  "truthy (JStr s) = (s \<noteq> [])"
| "truthy (JNum n) = truthyN n"
| "truthy (JBool b) = b"
| "truthy JNull = False"
| "truthy JUndef = False"
| "truthy (JObj k) = True"

text \<open>\<open>a || b\<close> on values and on numbers.\<close>

definition orElse :: "jsval \<Rightarrow> jsval \<Rightarrow> jsval" where
  "orElse a b = (if truthy a then a else b)"

definition orElseN :: "jsnum \<Rightarrow> jsnum \<Rightarrow> jsnum" where
  "orElseN a b = (if truthyN a then a else b)"

text \<open>
  What the host provides: the built-in functions of the JavaScript runtime that the code
  calls and that are not part of it. \<open>dateValue s\<close> is the time value in milliseconds of
  \<open>new Date(s)\<close> (NaN for an invalid date), \<open>nowValue\<close> the time value of
  \<open>new Date()\<close>, \<open>nowLocaleDateString\<close> the string
  \<open>new Date().toLocaleDateString()\<close>, \<open>numberToString\<close> the conversion of a number
  to a string, \<open>toFixed1\<close> the method \<open>toFixed(1)\<close>, \<open>parseFloatString\<close> the
  function \<open>parseFloat\<close> on a string, \<open>intlCurrency\<close> the method \<open>format\<close> of the
  \<open>Intl.NumberFormat\<close> for US dollars without fraction digits, \<open>objectString k\<close>
  the conversion to a string of the inherited property \<open>k\<close>.
\<close>

record host =
  dateValue :: "string \<Rightarrow> jsnum"
  nowValue :: jsnum
  nowLocaleDateString :: string
  numberToString :: "jsnum \<Rightarrow> string"
  toFixed1 :: "jsnum \<Rightarrow> string"
  parseFloatString :: "string \<Rightarrow> jsnum"
  intlCurrency :: "jsnum \<Rightarrow> string"
  objectString :: "string \<Rightarrow> string"

text \<open>\<open>String(v)\<close>, as a template literal and a property key apply it.\<close>

fun toString :: "host \<Rightarrow> jsval \<Rightarrow> string" where
  "toString h (JStr s) = s"
| "toString h (JNum n) = numberToString h n"
| "toString h (JBool b) = (if b then ''true'' else ''false'')"
| "toString h JNull = ''null''"
| "toString h JUndef = ''undefined''"
| "toString h (JObj k) = objectString h k"

text \<open>
  \<open>parseFloat(v)\<close> converts its argument to a string and parses a prefix of it. A number
  reads back as itself, the negative zero, whose string is \<open>"0"\<close>, as the positive zero;
  \<open>"true"\<close>, \<open>"false"\<close>, \<open>"null"\<close> and \<open>"undefined"\<close> have no numeric prefix.
\<close>

fun parseFloat :: "host \<Rightarrow> jsval \<Rightarrow> jsnum" where
  "parseFloat h (JStr s) = parseFloatString h s"
| "parseFloat h (JNum n) = (if n = NZero then Fin 0 else n)"
| "parseFloat h (JObj k) = parseFloatString h (objectString h k)"
| "parseFloat h _ = NaN"

text \<open>The names of the properties of \<open>Object.prototype\<close>, which every plain object inherits.\<close>

definition objectPrototypeKeys :: "string list" where
  "objectPrototypeKeys =
     [''constructor'', ''__defineGetter__'', ''__defineSetter__'', ''hasOwnProperty'',
      ''__lookupGetter__'', ''__lookupSetter__'', ''isPrototypeOf'', ''propertyIsEnumerable'',
      ''toString'', ''valueOf'', ''__proto__'', ''toLocaleString'']"

text \<open>
  A row is a plain object: the list of its own properties, in the order \<open>Object.keys\<close>
  enumerates them. Reading a property \<open>r[k]\<close> that the object does not have itself gives
  the inherited property of that name, if there is one, and \<open>undefined\<close> otherwise.
\<close>

type_synonym row = "(string \<times> jsval) list"

definition objectKeys :: "row \<Rightarrow> string list" where
  "objectKeys r = map fst r"

definition getProp :: "row \<Rightarrow> string \<Rightarrow> jsval" where
  "getProp r k =
     (case map_of r k of
        None \<Rightarrow> if k \<in> set objectPrototypeKeys then JObj k else JUndef
      | Some v \<Rightarrow> v)"

section \<open>Regular expressions\<close>

text \<open>
  The patterns of the column mapper use literals, \<open>.\<close>, \<open>\s\<close>, sequence, alternative,
  \<open>?\<close>, \<open>*\<close> and \<open>{1,3}\<close>. \<open>rxrem r s\<close> lists what can remain of \<open>s\<close> after
  \<open>r\<close> has matched a prefix of it; \<open>test\<close> is \<open>RegExp.prototype.test\<close> of a pattern
  without anchors: a match may start at any position.
\<close>

datatype rx = Str string | Dot | Spc | Seq rx rx | Alt rx rx | Opt rx | Star rx

definition lineTerminator :: "char \<Rightarrow> bool" where
  "lineTerminator c = (c = CHR 0x0A \<or> c = CHR 0x0D)"

definition whiteSpace :: "char \<Rightarrow> bool" where
  "whiteSpace c = (c \<in> set [CHR 0x09, CHR 0x0A, CHR 0x0B, CHR 0x0C, CHR 0x0D, CHR 0x20, CHR 0xA0])"

fun stripPrefix :: "string \<Rightarrow> string \<Rightarrow> string option" where
  "stripPrefix [] s = Some s"
| "stripPrefix (p # ps) [] = None"
| "stripPrefix (p # ps) (c # cs) = (if p = c then stripPrefix ps cs else None)"

fun classRem :: "(char \<Rightarrow> bool) \<Rightarrow> string \<Rightarrow> string list" where
  "classRem P [] = []"
| "classRem P (c # cs) = (if P c then [cs] else [])"

fun starIter :: "nat \<Rightarrow> (string \<Rightarrow> string list) \<Rightarrow> string \<Rightarrow> string list" where
  "starIter 0 f s = [s]"
| "starIter (Suc n) f s =
     s # concat (map (starIter n f) (filter (\<lambda>t. length t < length s) (f s)))"

primrec rxrem :: "rx \<Rightarrow> string \<Rightarrow> string list" where
  "rxrem (Str p) s = (case stripPrefix p s of None \<Rightarrow> [] | Some t \<Rightarrow> [t])"
| "rxrem Dot s = classRem (\<lambda>c. \<not> lineTerminator c) s"
| "rxrem Spc s = classRem whiteSpace s"
| "rxrem (Seq a b) s = concat (map (rxrem b) (rxrem a s))"
| "rxrem (Alt a b) s = rxrem a s @ rxrem b s"
| "rxrem (Opt a) s = rxrem a s @ [s]"
| "rxrem (Star a) s = starIter (length s) (rxrem a) s"

definition test :: "rx \<Rightarrow> string \<Rightarrow> bool" where
  "test r s = list_ex (\<lambda>t. rxrem r t \<noteq> []) (suffixes s)"

text \<open>\<open>r{1,3}\<close>.\<close>

definition rep13 :: "rx \<Rightarrow> rx" where
  "rep13 r = Seq r (Opt (Seq r (Opt r)))"

text \<open>
  \<open>toLowerCase\<close> on the letters of ASCII; the patterns have no other letter, so a
  character beyond ASCII matches what it matched before.
\<close>

definition lowerChar :: "char \<Rightarrow> char" where
  "lowerChar c =
     (case map_of (zip ''ABCDEFGHIJKLMNOPQRSTUVWXYZ'' ''abcdefghijklmnopqrstuvwxyz'') c of
        None \<Rightarrow> c | Some d \<Rightarrow> d)"

definition toLowerCase :: "string \<Rightarrow> string" where
  "toLowerCase s = map lowerChar s"

text \<open>\<open>/r/i.test(s)\<close> for a pattern whose literals are in lower case.\<close>

definition testI :: "rx \<Rightarrow> string \<Rightarrow> bool" where
  "testI r s = test r (toLowerCase s)"

section \<open>Column detection\<close>

record columnMap =
  costCode :: string
  costCodeDescription :: string
  costType :: string
  currentBudget :: string
  billedToDate :: string
  percentBilledCol :: string
  projectedCost :: string
  varianceCol :: string

text \<open>The patterns of \<open>detectAndMapColumns\<close>, in the order of its \<open>else if\<close> chain.\<close>

definition rxCostCode :: rx where
  \<comment> \<open>\<open>/cost.?code|budget.?code/\<close>\<close>
  "rxCostCode =
     Alt (Seq (Str ''cost'') (Seq (Opt Dot) (Str ''code'')))
         (Seq (Str ''budget'') (Seq (Opt Dot) (Str ''code'')))"

definition rxDescription :: rx where
  \<comment> \<open>\<open>/description|desc\.?/\<close>\<close>
  "rxDescription = Alt (Str ''description'') (Seq (Str ''desc'') (Opt (Str ''.'')))"

definition rxCostType :: rx where
  \<comment> \<open>\<open>/cost.?type|type/\<close>\<close>
  "rxCostType = Alt (Seq (Str ''cost'') (Seq (Opt Dot) (Str ''type''))) (Str ''type'')"

definition rxCurrentBudget :: rx where
  \<comment> \<open>\<open>/current.?contract.?budget|current.?budget|e.{1,3}current/\<close>\<close>
  "rxCurrentBudget =
     Alt (Seq (Str ''current'') (Seq (Opt Dot) (Seq (Str ''contract'') (Seq (Opt Dot) (Str ''budget'')))))
    (Alt (Seq (Str ''current'') (Seq (Opt Dot) (Str ''budget'')))
         (Seq (Str ''e'') (Seq (rep13 Dot) (Str ''current''))))"

definition rxBilledToDate :: rx where
  \<comment> \<open>\<open>/total.?billed|billed.?to.?date|j.{1,3}total.?billed/\<close>\<close>
  "rxBilledToDate =
     Alt (Seq (Str ''total'') (Seq (Opt Dot) (Str ''billed'')))
    (Alt (Seq (Str ''billed'') (Seq (Opt Dot) (Seq (Str ''to'') (Seq (Opt Dot) (Str ''date'')))))
         (Seq (Str ''j'') (Seq (rep13 Dot) (Seq (Str ''total'') (Seq (Opt Dot) (Str ''billed''))))))"

definition rxPercentBilled :: rx where
  \<comment> \<open>\<open>/\%\s*billed|billed\s*\%/\<close>\<close>
  "rxPercentBilled =
     Alt (Seq (Str ''%'') (Seq (Star Spc) (Str ''billed'')))
         (Seq (Str ''billed'') (Seq (Star Spc) (Str ''%'')))"

definition rxProjectedCost :: rx where
  \<comment> \<open>\<open>/proj.*cost.*complet|forecast.*complet|q.{1,3}proj/\<close>\<close>
  "rxProjectedCost =
     Alt (Seq (Str ''proj'') (Seq (Star Dot) (Seq (Str ''cost'') (Seq (Star Dot) (Str ''complet'')))))
    (Alt (Seq (Str ''forecast'') (Seq (Star Dot) (Str ''complet'')))
         (Seq (Str ''q'') (Seq (rep13 Dot) (Str ''proj''))))"

definition rxVariance :: rx where
  \<comment> \<open>\<open>/\(over\)|under|variance|g.*q/\<close>\<close>
  "rxVariance =
     Alt (Str ''(over)'')
    (Alt (Str ''under'')
    (Alt (Str ''variance'')
         (Seq (Str ''g'') (Seq (Star Dot) (Str ''q'')))))"

text \<open>The body of the loop over the keys: the first pattern that matches decides.\<close>

definition mapKey :: "columnMap \<Rightarrow> string \<Rightarrow> columnMap" where
  "mapKey m key =
     (let lowerKey = toLowerCase key in
      if test rxCostCode lowerKey then m\<lparr>costCode := key\<rparr>
      else if test rxDescription lowerKey then m\<lparr>costCodeDescription := key\<rparr>
      else if test rxCostType lowerKey then m\<lparr>costType := key\<rparr>
      else if test rxCurrentBudget lowerKey then m\<lparr>currentBudget := key\<rparr>
      else if test rxBilledToDate lowerKey then m\<lparr>billedToDate := key\<rparr>
      else if test rxPercentBilled lowerKey then m\<lparr>percentBilledCol := key\<rparr>
      else if test rxProjectedCost lowerKey then m\<lparr>projectedCost := key\<rparr>
      else if test rxVariance lowerKey then m\<lparr>varianceCol := key\<rparr>
      else m)"

text \<open>\<open>keys.find(k => /r/i.test(k)) || d\<close>.\<close>

definition findOr :: "rx \<Rightarrow> string list \<Rightarrow> string \<Rightarrow> string" where
  "findOr r keys d =
     (case find (testI r) keys of
        None \<Rightarrow> d
      | Some k \<Rightarrow> if k \<noteq> [] then k else d)"

definition inferColumnMappings :: "string list \<Rightarrow> columnMap" where
  "inferColumnMappings keys =
     \<lparr> costCode = findOr (Str ''code'') keys ''Budget Code'',
       costCodeDescription = findOr (Str ''descr'') keys ''Budget Code Description'',
       costType = findOr (Str ''type'') keys ''Cost Type'',
       currentBudget = findOr (Str ''budget'') keys ''E - Current Contract Budget'',
       billedToDate = findOr (Str ''billed'') keys ''J - Total Billed to Date'',
       percentBilledCol =
         findOr (Seq (Str ''%'') (Seq (Star Dot) (Str ''billed''))) keys ''% Billed to Date'',
       projectedCost =
         findOr (Alt (Str ''projected'') (Str ''forecast'')) keys ''Q - Proj Cost @ Complete (J+P)'',
       varianceCol =
         findOr (Alt (Str ''variance'') (Alt (Str ''over'') (Str ''under''))) keys
           ''(Over) / Under Budget (G-Q)'' \<rparr>"

text \<open>
  \<open>{ ...fallbackMappings, ..._.pickBy(map, value => value !== '') }\<close>: a field of the
  detected map wins unless it is the empty string.
\<close>

definition pick :: "string \<Rightarrow> string \<Rightarrow> string" where
  "pick fallback detected = (if detected \<noteq> [] then detected else fallback)"

definition mergeMappings :: "columnMap \<Rightarrow> columnMap \<Rightarrow> columnMap" where
  "mergeMappings fallbackMappings m =
     \<lparr> costCode = pick (costCode fallbackMappings) (costCode m),
       costCodeDescription = pick (costCodeDescription fallbackMappings) (costCodeDescription m),
       costType = pick (costType fallbackMappings) (costType m),
       currentBudget = pick (currentBudget fallbackMappings) (currentBudget m),
       billedToDate = pick (billedToDate fallbackMappings) (billedToDate m),
       percentBilledCol = pick (percentBilledCol fallbackMappings) (percentBilledCol m),
       projectedCost = pick (projectedCost fallbackMappings) (projectedCost m),
       varianceCol = pick (varianceCol fallbackMappings) (varianceCol m) \<rparr>"

definition emptyColumnMap :: columnMap where
  "emptyColumnMap =
     \<lparr> costCode = [], costCodeDescription = [], costType = [], currentBudget = [],
       billedToDate = [], percentBilledCol = [], projectedCost = [], varianceCol = [] \<rparr>"

definition detectAndMapColumns :: "row \<Rightarrow> columnMap" where
  "detectAndMapColumns sampleRow =
     (let keys = objectKeys sampleRow;
          m = foldl mapKey emptyColumnMap keys;
          fallbackMappings = inferColumnMappings keys
      in mergeMappings fallbackMappings m)"

section \<open>The dashboard record\<close>

text \<open>
  \<open>totalBudget\<close>, \<open>totalBilled\<close>, \<open>projectedFinal\<close> and \<open>projectedOverage\<close> start
  as the number 0 and are overwritten with formatted currency strings, so they are values.
\<close>

record project_data =
  projectName :: string
  startDate :: string
  endDate :: string
  currentDate :: string
  daysElapsed :: jsnum
  totalDuration :: string
  percentTimeElapsed :: jsnum
  totalBudget :: jsval
  totalBilled :: jsval
  percentBilled :: jsnum
  projectedFinal :: jsval
  projectedOverage :: jsval
  percentOverage :: jsnum

record budget_item =
  itemName :: jsval
  itemCostCode :: jsval
  budget :: jsnum
  billed :: jsnum
  itemPercentBilled :: jsnum
  projected :: jsnum
  variance :: jsnum

record name_value =
  nvName :: string
  nvValue :: jsnum

record cost_type_entry =
  ctName :: jsval
  complete :: jsnum
  remaining :: jsnum
  expectedComplete :: jsnum

record division_entry =
  divName :: jsval
  divComplete :: jsnum
  expected :: jsnum
  divVariance :: jsnum

record dashboard =
  projectData :: project_data
  budgetData :: "budget_item list"
  timeData :: "name_value list"
  budgetSpentData :: "name_value list"
  costTypeData :: "cost_type_entry list"
  divisionData :: "division_entry list"

text \<open>
  The project metadata: an object whose four properties are strings or absent; the whole
  object may be \<open>null\<close> or \<open>undefined\<close>. \<open>metaField f m\<close> is \<open>projectMeta?.f\<close>.
\<close>

record project_meta =
  metaProjectName :: "string option"
  metaStartDate :: "string option"
  metaEndDate :: "string option"
  metaCurrentDate :: "string option"

definition metaField :: "(project_meta \<Rightarrow> string option) \<Rightarrow> project_meta option \<Rightarrow> string option" where
  "metaField f m = (case m of None \<Rightarrow> None | Some pm \<Rightarrow> f pm)"

definition truthyS :: "string option \<Rightarrow> bool" where
  "truthyS v = (case v of None \<Rightarrow> False | Some s \<Rightarrow> s \<noteq> [])"

definition orElseS :: "string option \<Rightarrow> string \<Rightarrow> string" where
  "orElseS v d = (case v of None \<Rightarrow> d | Some s \<Rightarrow> if s \<noteq> [] then s else d)"

definition emptyResult :: "host \<Rightarrow> project_meta option \<Rightarrow> dashboard" where
  "emptyResult h projectMeta =
     \<lparr> projectData =
         \<lparr> projectName = orElseS (metaField metaProjectName projectMeta) ''Construction Project'',
           startDate = orElseS (metaField metaStartDate projectMeta) [],
           endDate = orElseS (metaField metaEndDate projectMeta) [],
           currentDate = orElseS (metaField metaCurrentDate projectMeta) (nowLocaleDateString h),
           daysElapsed = Fin 0,
           totalDuration = [],
           percentTimeElapsed = Fin 0,
           totalBudget = JNum (Fin 0),
           totalBilled = JNum (Fin 0),
           percentBilled = Fin 0,
           projectedFinal = JNum (Fin 0),
           projectedOverage = JNum (Fin 0),
           percentOverage = Fin 0 \<rparr>,
       budgetData = [],
       timeData = [],
       budgetSpentData = [],
       costTypeData = [],
       divisionData = [] \<rparr>"

section \<open>Aggregation\<close>

definition sumField :: "host \<Rightarrow> row list \<Rightarrow> string \<Rightarrow> jsnum" where
  "sumField h items fieldName =
     foldl (\<lambda>sum item. jadd sum (orElseN (parseFloat h (getProp item fieldName)) (Fin 0)))
       (Fin 0) items"

definition formatCurrency :: "host \<Rightarrow> jsnum \<Rightarrow> string" where
  "formatCurrency h v = intlCurrency h v"

datatype exn = TypeError string

text \<open>
  \<open>_.groupBy\<close>: an object from each key to the elements with that key, in their order.
  The object is the list of its properties in the order of their creation, which is the
  order of the first element of each key; \<open>objectEntries\<close> below gives the order of
  their enumeration. An exception of the iteratee ends the loop.
\<close>

fun groupInsert :: "string \<Rightarrow> 'a \<Rightarrow> (string \<times> 'a list) list \<Rightarrow> (string \<times> 'a list) list" where
  "groupInsert k x [] = [(k, [x])]"
| "groupInsert k x ((k', xs) # g) =
     (if k = k' then (k', xs @ [x]) # g else (k', xs) # groupInsert k x g)"

fun groupByE :: "('a \<Rightarrow> exn + string) \<Rightarrow> 'a list \<Rightarrow> (string \<times> 'a list) list
    \<Rightarrow> exn + (string \<times> 'a list) list" where
  "groupByE f [] g = Inr g"
| "groupByE f (x # xs) g =
     (case f x of Inl e \<Rightarrow> Inl e | Inr k \<Rightarrow> groupByE f xs (groupInsert k x g))"

definition groupBy :: "('a \<Rightarrow> string) \<Rightarrow> 'a list \<Rightarrow> (string \<times> 'a list) list" where
  "groupBy f xs = foldl (\<lambda>g x. groupInsert (f x) x g) [] xs"

definition isDigit :: "char \<Rightarrow> bool" where
  "isDigit c = (c \<in> set ''0123456789'')"

text \<open>
  \<open>Object.entries\<close>: the properties whose key is an array index (the decimal numeral,
  without leading zeros, of an integer below \<open>2 ^ 32 - 1\<close>) come first, in ascending
  order of the index; the others follow in the order of their creation.
\<close>

definition digitValue :: "char \<Rightarrow> int" where
  "digitValue c =
     (case map_of (zip ''0123456789'' [0, 1, 2, 3, 4, 5, 6, 7, 8, 9]) c of
        None \<Rightarrow> 0 | Some d \<Rightarrow> d)"

definition decimalValue :: "string \<Rightarrow> int" where
  "decimalValue s = foldl (\<lambda>n c. 10 * n + digitValue c) 0 s"

definition arrayIndex :: "string \<Rightarrow> int option" where
  "arrayIndex s =
     (case s of
        [] \<Rightarrow> None
      | c # cs \<Rightarrow>
          if list_all isDigit (c # cs) \<and> (cs = [] \<or> c \<noteq> CHR ''0'') \<and>
             decimalValue (c # cs) < 2 ^ 32 - 1
          then Some (decimalValue (c # cs)) else None)"

definition indexOf :: "string \<Rightarrow> int" where
  "indexOf k = (case arrayIndex k of None \<Rightarrow> 0 | Some n \<Rightarrow> n)"

definition objectEntries :: "(string \<times> 'a) list \<Rightarrow> (string \<times> 'a) list" where
  "objectEntries obj =
     sort_key (\<lambda>e. indexOf (fst e)) (filter (\<lambda>e. arrayIndex (fst e) \<noteq> None) obj) @
     filter (\<lambda>e. arrayIndex (fst e) = None) obj"

text \<open>
  The iteratee of the division grouping. \<open>costCode.match(/^(\d+)/)\<close> is a method call:
  on a string it gives the leading digits (no match when there are none); a number or
  \<open>true\<close> has no method \<open>match\<close>, and the call throws a TypeError.
\<close>

definition divisionOf :: "columnMap \<Rightarrow> row \<Rightarrow> exn + string" where
  "divisionOf cm r =
     (case orElse (getProp r (costCode cm)) (JStr []) of
        JStr s \<Rightarrow>
          (case takeWhile isDigit s of
             [] \<Rightarrow> Inr ''Other''
           | d # ds \<Rightarrow> Inr (''Div '' @ d # ds))
      | _ \<Rightarrow> Inl (TypeError ''costCode.match is not a function''))"

definition costTypeOf :: "host \<Rightarrow> columnMap \<Rightarrow> row \<Rightarrow> string" where
  "costTypeOf h cm r = toString h (orElse (getProp r (costType cm)) (JStr ''Other''))"

definition costTypeMap :: "(string \<times> string) list" where
  "costTypeMap =
     [(''L'', ''Labor (L)''),
      (''M'', ''Materials (M)''),
      (''S'', ''Subcontracts (S)''),
      (''O'', ''Other (O)''),
      (''LABOR'', ''Labor (L)''),
      (''MATERIAL'', ''Materials (M)''),
      (''SUBCONTRACT'', ''Subcontracts (S)''),
      (''OTHER'', ''Other (O)'')]"

text \<open>
  \<open>table[k] || k\<close> for an object literal \<open>table\<close> of non-empty strings. A key that
  the literal does not have is looked up in \<open>Object.prototype\<close>: for the name of one of
  its properties the result is that property, a function or an object and so truthy; for
  any other key the result is \<open>undefined\<close>, and \<open>||\<close> gives the key.
\<close>

definition lookupOr :: "(string \<times> string) list \<Rightarrow> string \<Rightarrow> jsval" where
  "lookupOr table k =
     (case map_of table k of
        Some v \<Rightarrow> JStr v
      | None \<Rightarrow> if k \<in> set objectPrototypeKeys then JObj k else JStr k)"

definition costTypeStep :: "host \<Rightarrow> columnMap \<Rightarrow> jsnum \<Rightarrow> cost_type_entry list
    \<Rightarrow> string \<times> row list \<Rightarrow> cost_type_entry list" where
  "costTypeStep h cm expComplete result entry =
     (let normalizedType = lookupOr costTypeMap (fst entry);
          totBudget = sumField h (snd entry) (currentBudget cm);
          totBilled = sumField h (snd entry) (billedToDate cm)
      in if jgt totBudget (Fin 0) then
           (let percentComplete = jmul (jdiv totBilled totBudget) (Fin 100)
            in result @
               [\<lparr> ctName = normalizedType,
                  complete = toFixed2 percentComplete,
                  remaining = toFixed2 (jsub (Fin 100) percentComplete),
                  expectedComplete = expComplete \<rparr>])
         else result)"

definition processCostTypeData :: "host \<Rightarrow> (string \<times> row list) list \<Rightarrow> columnMap \<Rightarrow> jsnum
    \<Rightarrow> cost_type_entry list" where
  "processCostTypeData h groupedByCostType cm expComplete =
     foldl (costTypeStep h cm expComplete) [] (objectEntries groupedByCostType)"

definition divisionNames :: "(string \<times> string) list" where
  "divisionNames =
     [(''Div 1'', ''Div 1 - General''),
      (''Div 2'', ''Div 2 - Site Work''),
      (''Div 3'', ''Div 3 - Concrete''),
      (''Div 4'', ''Div 4 - Masonry''),
      (''Div 5'', ''Div 5 - Metals''),
      (''Div 6'', ''Div 6 - Wood/Plastics''),
      (''Div 7'', ''Div 7 - Thermal/Moisture''),
      (''Div 8'', ''Div 8 - Doors/Windows''),
      (''Div 9'', ''Div 9 - Finishes''),
      (''Div 10'', ''Div 10 - Specialties''),
      (''Div 11'', ''Div 11 - Equipment''),
      (''Div 12'', ''Div 12 - Furnishings''),
      (''Div 13'', ''Div 13 - Special Construction''),
      (''Div 14'', ''Div 14 - Conveying Systems''),
      (''Div 15'', ''Div 15 - Mechanical/Plumbing''),
      (''Div 16'', ''Div 16 - Electrical''),
      (''Div 17'', ''Div 17 - Communications''),
      (''Div 18'', ''Div 18 - Builder's Contingency''),
      (''Div 19'', ''Div 19 - Project Reqmts''),
      (''Div 20'', ''Div 20 - Builder's Fee''),
      (''Div 21'', ''Div 21 - Fire Suppression''),
      (''Div 22'', ''Div 22 - Plumbing''),
      (''Div 23'', ''Div 23 - HVAC''),
      (''Div 26'', ''Div 26 - Electrical''),
      (''Div 27'', ''Div 27 - Communications''),
      (''Div 28'', ''Div 28 - Electronic Safety'')]"

text \<open>
  \<open>_.sortBy\<close> with one numeric criterion: a stable sort in ascending order of the key.
  Its comparison ranks NaN after every number and the two zeros as equal; two NaN keys,
  which it ranks each after the other, keep their order here.
\<close>

definition ascLe :: "jsnum \<Rightarrow> jsnum \<Rightarrow> bool" where
  "ascLe a b = (b = NaN \<or> (a \<noteq> NaN \<and> \<not> jlt b a))"

fun insertBy :: "('a \<Rightarrow> jsnum) \<Rightarrow> 'a \<Rightarrow> 'a list \<Rightarrow> 'a list" where
  "insertBy f x [] = [x]"
| "insertBy f x (y # ys) = (if ascLe (f x) (f y) then x # y # ys else y # insertBy f x ys)"

definition sortBy :: "('a \<Rightarrow> jsnum) \<Rightarrow> 'a list \<Rightarrow> 'a list" where
  "sortBy f xs = foldr (insertBy f) xs []"

definition divisionStep :: "host \<Rightarrow> columnMap \<Rightarrow> jsnum \<Rightarrow> division_entry list
    \<Rightarrow> string \<times> row list \<Rightarrow> division_entry list" where
  "divisionStep h cm expComplete result entry =
     (let divisionName = lookupOr divisionNames (fst entry);
          totBudget = sumField h (snd entry) (currentBudget cm);
          totBilled = sumField h (snd entry) (billedToDate cm)
      in if jgt totBudget (Fin 0) then
           (let percentComplete = jmul (jdiv totBilled totBudget) (Fin 100)
            in result @
               [\<lparr> divName = divisionName,
                  divComplete = toFixed2 percentComplete,
                  expected = expComplete,
                  divVariance = toFixed2 (jsub percentComplete expComplete) \<rparr>])
         else result)"

definition processDivisionData :: "host \<Rightarrow> (string \<times> row list) list \<Rightarrow> columnMap \<Rightarrow> jsnum
    \<Rightarrow> division_entry list" where
  "processDivisionData h groupedByDivision cm expComplete =
     sortBy (\<lambda>item. jneg (divComplete item))
       (foldl (divisionStep h cm expComplete) [] (objectEntries groupedByDivision))"

definition budgetItem :: "host \<Rightarrow> columnMap \<Rightarrow> row \<Rightarrow> budget_item" where
  "budgetItem h cm r =
     (let bud = orElseN (parseFloat h (getProp r (currentBudget cm))) (Fin 0);
          bil = orElseN (parseFloat h (getProp r (billedToDate cm))) (Fin 0);
          proj = orElseN (parseFloat h (getProp r (projectedCost cm))) bud
      in \<lparr> itemName = orElse (getProp r (costCodeDescription cm)) (JStr ''Unnamed Item''),
           itemCostCode = orElse (getProp r (costCode cm)) (JStr []),
           budget = bud,
           billed = bil,
           itemPercentBilled = (if jgt bud (Fin 0) then jmul (jdiv bil bud) (Fin 100) else Fin 0),
           projected = proj,
           variance = jsub bud proj \<rparr>)"

text \<open>The parameter \<open>limit\<close> has the default 5, which the only call uses.\<close>

definition processTopBudgetItems :: "host \<Rightarrow> row list \<Rightarrow> columnMap \<Rightarrow> nat \<Rightarrow> budget_item list" where
  "processTopBudgetItems h rawBudgetData cm limit =
     take limit (sortBy (\<lambda>item. jneg (budget item)) (map (budgetItem h cm) rawBudgetData))"

section \<open>The normalizer\<close>

text \<open>
  The time metrics, computed when the metadata has a start and an end date. Nothing here
  throws: an invalid date has the time value NaN, and a division by zero gives an infinity
  or NaN. The literal \<open>30.4\<close> is the binary64 number nearest to \<open>152 / 5\<close>.
\<close>

definition timeMetrics :: "host \<Rightarrow> project_meta option \<Rightarrow> dashboard \<Rightarrow> dashboard" where
  "timeMetrics h projectMeta result =
     (if truthyS (metaField metaStartDate projectMeta) \<and> truthyS (metaField metaEndDate projectMeta)
      then
        (let startD = dateValue h (orElseS (metaField metaStartDate projectMeta) []);
             endD = dateValue h (orElseS (metaField metaEndDate projectMeta) []);
             currentD = (if truthyS (metaField metaCurrentDate projectMeta)
                         then dateValue h (orElseS (metaField metaCurrentDate projectMeta) [])
                         else nowValue h);
             totalDays = jceil (jdiv (jsub endD startD) (Fin (1000 * 60 * 60 * 24)));
             elapsedDays = jceil (jdiv (jsub currentD startD) (Fin (1000 * 60 * 60 * 24)))
         in result\<lparr>projectData := (projectData result)
              \<lparr> daysElapsed := elapsedDays,
                totalDuration := numberToString h (jceil (jdiv totalDays (toDouble (152 / 5)))) @ '' months'',
                percentTimeElapsed := toFixed2 (jmul (jdiv elapsedDays totalDays) (Fin 100)) \<rparr>\<rparr>)
      else result)"

text \<open>
  The part of the \<open>try\<close> block after the column detection, for the column map \<open>cm\<close>.
  It returns the exception thrown, if any, and the record \<open>result\<close> as it is then: the
  function returns this same object at the end of the block and in the \<open>catch\<close> clause.
\<close>

definition processRows :: "host \<Rightarrow> columnMap \<Rightarrow> row list \<Rightarrow> dashboard \<Rightarrow> exn option \<times> dashboard" where
  "processRows h cm rawBudgetData result =
     (case groupByE (divisionOf cm) rawBudgetData [] of
        Inl e \<Rightarrow> (Some e, result)
      | Inr groupedByDivision \<Rightarrow>
          (let groupedByCostType = groupBy (costTypeOf h cm) rawBudgetData;
               totBudget = sumField h rawBudgetData (currentBudget cm);
               totBilled = sumField h rawBudgetData (billedToDate cm);
               projectedFinalCost = sumField h rawBudgetData (projectedCost cm);
               pctBilled = (if jgt totBudget (Fin 0) then jmul (jdiv totBilled totBudget) (Fin 100) else Fin 0);
               projOverage = jsub projectedFinalCost totBudget;
               pctOverage = (if jgt totBudget (Fin 0) then jmul (jdiv projOverage totBudget) (Fin 100) else Fin 0);
               result = result\<lparr>projectData := (projectData result)
                 \<lparr> totalBudget := JStr (formatCurrency h totBudget),
                   totalBilled := JStr (formatCurrency h totBilled),
                   percentBilled := toFixed2 pctBilled,
                   projectedFinal := JStr (formatCurrency h projectedFinalCost),
                   projectedOverage := JStr (formatCurrency h projOverage),
                   percentOverage := toFixed2 pctOverage \<rparr>\<rparr>;
               result = result\<lparr>timeData :=
                 [\<lparr> nvName = ''Time Elapsed'', nvValue = percentTimeElapsed (projectData result) \<rparr>,
                  \<lparr> nvName = ''Time Remaining'',
                    nvValue = jsub (Fin 100) (percentTimeElapsed (projectData result)) \<rparr>]\<rparr>;
               result = result\<lparr>budgetSpentData :=
                 [\<lparr> nvName = ''Budget Spent'', nvValue = percentBilled (projectData result) \<rparr>,
                  \<lparr> nvName = ''Budget Remaining'',
                    nvValue = jsub (Fin 100) (percentBilled (projectData result)) \<rparr>]\<rparr>;
               result = result\<lparr>costTypeData :=
                 processCostTypeData h groupedByCostType cm (percentTimeElapsed (projectData result))\<rparr>;
               result = result\<lparr>divisionData :=
                 processDivisionData h groupedByDivision cm (percentTimeElapsed (projectData result))\<rparr>;
               result = result\<lparr>budgetData := processTopBudgetItems h rawBudgetData cm 5\<rparr>
           in (None, result)))"

text \<open>The \<open>try\<close> block, entered with a first row \<open>r\<close>: \<open>rawBudgetData\<close> is \<open>r # rs\<close>.\<close>

definition tryBlock :: "host \<Rightarrow> row \<Rightarrow> row list \<Rightarrow> project_meta option \<Rightarrow> dashboard
    \<Rightarrow> exn option \<times> dashboard" where
  "tryBlock h r rs projectMeta result =
     (let result = timeMetrics h projectMeta result;
          cm = detectAndMapColumns r
      in processRows h cm (r # rs) result)"

text \<open>\<open>rawBudgetData\<close> is \<open>None\<close> for \<open>null\<close> or \<open>undefined\<close>, else the array of rows.\<close>

definition normalizeBudgetData :: "host \<Rightarrow> row list option \<Rightarrow> project_meta option \<Rightarrow> dashboard" where
  "normalizeBudgetData h rawBudgetData projectMeta =
     (let result = emptyResult h projectMeta in
      case rawBudgetData of
        None \<Rightarrow> result
      | Some [] \<Rightarrow> result
      | Some (r # rs) \<Rightarrow> snd (tryBlock h r rs projectMeta result))"

section \<open>Red flags\<close>

record finding =
  title :: string
  description :: string
  ftype :: string
  recommendation :: string

text \<open>
  \<open>name.split(' ')[0]\<close>: the part of a string before its first space. A value that is
  not a string has no method \<open>split\<close>, and the call throws a TypeError (with another
  message for \<open>null\<close> and \<open>undefined\<close>).
\<close>

definition splitFirst :: "jsval \<Rightarrow> exn + string" where
  "splitFirst v =
     (case v of
        JStr s \<Rightarrow> Inr (takeWhile (\<lambda>c. c \<noteq> CHR '' '') s)
      | _ \<Rightarrow> Inl (TypeError ''costType.name.split is not a function''))"

text \<open>
  The body of the loop over the cost types. The object literal is evaluated before it is
  pushed, so an exception of \<open>split\<close> leaves the findings as they are and ends the
  function.
\<close>

definition costTypeCheck :: "host \<Rightarrow> finding list \<Rightarrow> cost_type_entry \<Rightarrow> exn + finding list" where
  "costTypeCheck h findings ct =
     (let var = jsub (complete ct) (expectedComplete ct);
          significantlyBehind = jlt var (Fin (- 15))
      in if significantlyBehind then
           (case splitFirst (ctName ct) of
              Inl e \<Rightarrow> Inl e
            | Inr firstWord \<Rightarrow>
                Inr (findings @
                  [\<lparr> title = toString h (ctName ct) @ '' Progress Concern'',
                     description = toString h (ctName ct) @ '' only '' @ toFixed1 h (complete ct)
                       @ ''% complete vs expected '' @ toFixed1 h (expectedComplete ct) @ ''%'',
                     ftype = ''danger'',
                     recommendation = ''Expedite '' @ firstWord @ '' procurement and activities'' \<rparr>]))
         else Inr findings)"

text \<open>\<open>forEach\<close> with a callback that may throw.\<close>

fun forEachE :: "('s \<Rightarrow> 'a \<Rightarrow> exn + 's) \<Rightarrow> 's \<Rightarrow> 'a list \<Rightarrow> exn + 's" where
  "forEachE f st [] = Inr st"
| "forEachE f st (x # xs) =
     (case f st x of Inl e \<Rightarrow> Inl e | Inr st' \<Rightarrow> forEachE f st' xs)"

definition divisionCheck :: "host \<Rightarrow> finding list \<Rightarrow> division_entry \<Rightarrow> finding list" where
  "divisionCheck h findings d =
     (if jlt (divVariance d) (Fin (- 20)) then
        findings @
        [\<lparr> title = toString h (divName d) @ '' Behind Schedule'',
           description = toString h (divName d) @ '' only '' @ toFixed1 h (divComplete d)
             @ ''% complete vs expected '' @ toFixed1 h (expected d) @ ''%'',
           ftype = ''danger'',
           recommendation = ''Prioritize '' @ toString h (divName d)
             @ '' activities to prevent cascading delays'' \<rparr>]
      else findings)"

text \<open>The schedule variance check and the budget overrun check.\<close>

definition scheduleCheck :: "host \<Rightarrow> project_data \<Rightarrow> finding list \<Rightarrow> finding list" where
  "scheduleCheck h pd findings =
     (let scheduleVariance = jsub (percentTimeElapsed pd) (percentBilled pd)
      in if jgt scheduleVariance (Fin 5) then
           findings @
           [\<lparr> title = ''Schedule Status'',
              description = ''Project is '' @ toFixed1 h scheduleVariance @ ''% behind schedule (''
                @ toFixed1 h (percentTimeElapsed pd) @ ''% time elapsed vs ''
                @ toFixed1 h (percentBilled pd) @ ''% budget spent)'',
              ftype = (if jgt scheduleVariance (Fin 10) then ''danger'' else ''warning''),
              recommendation = ''Review schedule and accelerate critical path activities'' \<rparr>]
         else findings)"

definition budgetCheck :: "host \<Rightarrow> project_data \<Rightarrow> finding list \<Rightarrow> finding list" where
  "budgetCheck h pd findings =
     (if jgt (percentOverage pd) (Fin 0) then
        findings @
        [\<lparr> title = ''Budget Concerns'',
           description = ''Projected overrun of '' @ toString h (projectedOverage pd)
             @ '' ('' @ toFixed1 h (percentOverage pd) @ ''% over budget)'',
           ftype = (if jgt (percentOverage pd) (Fin 5) then ''danger'' else ''warning''),
           recommendation = ''Review contingency usage and implement cost controls'' \<rparr>]
      else findings)"

text \<open>
  The function: the four checks in the order of the source. An exception in the loop over
  the cost types ends it.
\<close>

definition identifyProjectRedFlags :: "host \<Rightarrow> dashboard \<Rightarrow> exn + finding list" where
  "identifyProjectRedFlags h normalizedData =
     (let findings = [];
          pd = projectData normalizedData;
          findings = scheduleCheck h pd findings
      in case forEachE (costTypeCheck h) findings (costTypeData normalizedData) of
           Inl e \<Rightarrow> Inl e
         | Inr findings \<Rightarrow>
             (let findings = foldl (divisionCheck h) findings (divisionData normalizedData);
                  findings = budgetCheck h pd findings
              in Inr findings))"

text \<open>\<open>a >= b\<close>.\<close>

definition jge :: "jsnum \<Rightarrow> jsnum \<Rightarrow> bool" where
  "jge a b = (a \<noteq> NaN \<and> b \<noteq> NaN \<and> \<not> jlt a b)"

section \<open>Example inputs\<close>

text \<open>
  A host that agrees with a JavaScript runtime on the values the examples below use:
  the time values of five dates in January 2024 (every other string used is not a date),
  the current time, the strings of a few numbers and of the inherited property
  \<open>constructor\<close>. The examples have numeric cells as numbers, so \<open>parseFloat\<close> is
  applied to no string.
\<close>

definition exampleHost :: host where
  "exampleHost =
     \<lparr> dateValue = (\<lambda>s.
         if s = ''2024-01-01'' then Fin 1704067200000
         else if s = ''2024-01-14'' then Fin 1705190400000
         else if s = ''2024-01-16'' then Fin 1705363200000
         else if s = ''2024-01-19'' then Fin 1705622400000
         else if s = ''2024-01-31'' then Fin 1706659200000
         else NaN),
       nowValue = Fin 1705363200000,
       nowLocaleDateString = ''1/16/2024'',
       numberToString = (\<lambda>n.
         if n = Fin 0 then ''0'' else if n = Fin 1 then ''1''
         else if n = NaN then ''NaN'' else if n = PInf then ''Infinity'' else ''?''),
       toFixed1 = (\<lambda>n.
         if n = Fin 50 then ''50.0'' else if n = Fin 20 then ''20.0''
         else if n = Fin 30 then ''30.0'' else if n = Fin 10 then ''10.0''
         else if n = toDouble (83 / 10) then ''8.3'' else if n = toDouble (33 / 10) then ''3.3''
         else if n = toDouble (5000000000000001 / 1000000000000000) then ''5.0'' else ''?''),
       parseFloatString = (\<lambda>s. NaN),
       intlCurrency = (\<lambda>n.
         if n = Fin 0 then ''$0'' else if n = Fin 1000 then ''$1,000''
         else if n = Fin 200 then ''$200'' else if n = Fin 100 then ''$100''
         else if n = Fin 1100 then ''$1,100'' else if n = Fin 2200 then ''$2,200''
         else if n = Fin 3500 then ''$3,500'' else if n = Fin 3600 then ''$3,600''
         else if n = Fin 20000 then ''$20,000'' else if n = Fin 21001 then ''$21,001''
         else if n = Fin 1001 then ''$1,001'' else ''$?''),
       objectString = (\<lambda>k.
         if k = ''constructor'' then ''function Object() { [native code] }'' else ''?'') \<rparr>"

definition exampleMeta :: project_meta where
  "exampleMeta =
     \<lparr> metaProjectName = Some ''Depot'', metaStartDate = Some ''2024-01-01'',
       metaEndDate = Some ''2024-01-31'', metaCurrentDate = Some ''2024-01-16'' \<rparr>"

text \<open>A row as the CSV parser delivers it, numeric cells as numbers.\<close>

definition exampleRow :: row where
  "exampleRow =
     [(''Cost Code'', JStr ''03-305''),
      (''Description'', JStr ''Footings''),
      (''Cost Type'', JStr ''L''),
      (''Current Budget'', JNum (Fin 1000)),
      (''Billed to Date'', JNum (Fin 200)),
      (''Forecast to Complete'', JNum (Fin 1100))]"

text \<open>The same row with a cost code of digits only, which the parser delivers as a number.\<close>

definition numericCodeRow :: row where
  "numericCodeRow =
     [(''Cost Code'', JNum (Fin 1000)),
      (''Description'', JStr ''Footings''),
      (''Cost Type'', JStr ''L''),
      (''Current Budget'', JNum (Fin 1000)),
      (''Billed to Date'', JNum (Fin 200)),
      (''Forecast to Complete'', JNum (Fin 1100))]"

definition secondRow :: row where
  "secondRow =
     [(''Cost Code'', JStr ''09-100''),
      (''Description'', JStr ''Paint''),
      (''Cost Type'', JStr ''M''),
      (''Current Budget'', JNum (Fin 2500)),
      (''Billed to Date'', JNum (Fin 2000)),
      (''Forecast to Complete'', JNum (Fin 2500))]"

text \<open>The column map that \<open>detectAndMapColumns\<close> computes for these rows.\<close>

definition exampleColumns :: columnMap where
  "exampleColumns =
     \<lparr> costCode = ''Cost Code'', costCodeDescription = ''Description'',
       costType = ''Cost Type'', currentBudget = ''Current Budget'',
       billedToDate = ''Billed to Date'', percentBilledCol = ''% Billed to Date'',
       projectedCost = ''Forecast to Complete'',
       varianceCol = ''(Over) / Under Budget (G-Q)'' \<rparr>"


definition zeroDurationMeta :: project_meta where
  \<comment> \<open>a project that starts and ends on the same day\<close>
  "zeroDurationMeta = exampleMeta\<lparr>metaEndDate := Some ''2024-01-01''\<rparr>"

text \<open>The first row with a cost type that is the name of an inherited property.\<close>

definition constructorRow :: row where
  "constructorRow =
     [(''Cost Code'', JStr ''03-305''),
      (''Description'', JStr ''Footings''),
      (''Cost Type'', JStr ''constructor''),
      (''Current Budget'', JNum (Fin 1000)),
      (''Billed to Date'', JNum (Fin 200)),
      (''Forecast to Complete'', JNum (Fin 1100))]"

text \<open>The first row with a forecast of 0.\<close>

definition zeroForecastRow :: row where
  "zeroForecastRow =
     [(''Cost Code'', JStr ''03-305''),
      (''Description'', JStr ''Footings''),
      (''Cost Type'', JStr ''L''),
      (''Current Budget'', JNum (Fin 1000)),
      (''Billed to Date'', JNum (Fin 200)),
      (''Forecast to Complete'', JNum (Fin 0))]"

text \<open>A row with 23 billed of a budget of 160: 14.374999999999998 percent in binary64.\<close>

definition roundingRow :: row where
  "roundingRow =
     [(''Cost Code'', JStr ''05-120''),
      (''Description'', JStr ''Anchors''),
      (''Cost Type'', JStr ''M''),
      (''Current Budget'', JNum (Fin 160)),
      (''Billed to Date'', JNum (Fin 23)),
      (''Forecast to Complete'', JNum (Fin 160))]"

text \<open>
  A row with a forecast of 21001 for a budget of 20000: an overage of 5.005 percent in
  exact arithmetic and of 5.004999999999999 percent in binary64.
\<close>

definition overageRow :: row where
  "overageRow =
     [(''Cost Code'', JStr ''07-210''),
      (''Description'', JStr ''Roofing''),
      (''Cost Type'', JStr ''S''),
      (''Current Budget'', JNum (Fin 20000)),
      (''Billed to Date'', JNum (Fin 0)),
      (''Forecast to Complete'', JNum (Fin 21001))]"

text \<open>Six rows by their budgets, the largest one last.\<close>

definition budgetRow :: "string \<Rightarrow> rat \<Rightarrow> row" where
  "budgetRow code b =
     [(''Cost Code'', JStr code),
      (''Description'', JStr ''Item''),
      (''Cost Type'', JStr ''S''),
      (''Current Budget'', JNum (Fin b)),
      (''Billed to Date'', JNum (Fin 0)),
      (''Forecast to Complete'', JNum (Fin b))]"

definition sixRows :: "row list" where
  "sixRows =
     [budgetRow ''01-500'' 500, budgetRow ''01-400'' 400, budgetRow ''01-300'' 300,
      budgetRow ''01-200'' 200, budgetRow ''01-100'' 100, budgetRow ''02-900'' 900000]"

text \<open>
  A row with two keys that contain "code": the loop takes the second, the fallback
  pattern alone would take the first; and a billed column that only the fallback finds.
\<close>

definition phaseRow :: row where
  "phaseRow =
     [(''Phase Code'', JStr ''A''),
      (''Cost Code'', JStr ''03-305''),
      (''Description'', JStr ''Footings''),
      (''Cost Type'', JStr ''L''),
      (''Current Budget'', JNum (Fin 1000)),
      (''Billed'', JNum (Fin 200))]"

definition phaseColumns :: columnMap where
  "phaseColumns =
     \<lparr> costCode = ''Cost Code'', costCodeDescription = ''Description'',
       costType = ''Cost Type'', currentBudget = ''Current Budget'',
       billedToDate = ''Billed'', percentBilledCol = ''% Billed to Date'',
       projectedCost = ''Q - Proj Cost @ Complete (J+P)'',
       varianceCol = ''(Over) / Under Budget (G-Q)'' \<rparr>"


text \<open>
  A record with 8.3 percent of the time elapsed and 3.3 percent billed: the difference is
  5.000000000000001 in binary64.
\<close>

definition roundingDashboard :: dashboard where
  "roundingDashboard =
     (emptyResult exampleHost None)
       \<lparr>projectData := (projectData (emptyResult exampleHost None))
          \<lparr> percentTimeElapsed := toDouble (83 / 10), percentBilled := toDouble (33 / 10) \<rparr>\<rparr>"

section \<open>Predicates of the statements\<close>

text \<open>
  The selection of a column, in the words of the specification. The patterns are tried in
  the order of the chain, on the key in lower case; pattern \<open>i\<close> decides a key when it is
  the first of the chain to match it. The column of field \<open>i\<close> is the last key that
  pattern \<open>i\<close> decides; without one, the first key that the field's fallback pattern
  matches without regard to case; without one, the field's default name.
\<close>

definition chain :: "rx list" where
  "chain =
     [rxCostCode, rxDescription, rxCostType, rxCurrentBudget, rxBilledToDate,
      rxPercentBilled, rxProjectedCost, rxVariance]"

definition decides :: "nat \<Rightarrow> string \<Rightarrow> bool" where
  "decides i key =
     (i < length chain \<and> test (chain ! i) (toLowerCase key) \<and>
      list_all (\<lambda>r. \<not> test r (toLowerCase key)) (take i chain))"

definition selectedColumn :: "nat \<Rightarrow> rx \<Rightarrow> string \<Rightarrow> string list \<Rightarrow> string" where
  "selectedColumn i fallback d keys =
     (case filter (decides i) keys of
        k # ks \<Rightarrow> last (k # ks)
      | [] \<Rightarrow> (case find (testI fallback) keys of Some k \<Rightarrow> k | None \<Rightarrow> d))"

definition selectedColumns :: "string list \<Rightarrow> columnMap" where
  "selectedColumns keys =
     \<lparr> costCode = selectedColumn 0 (Str ''code'') ''Budget Code'' keys,
       costCodeDescription = selectedColumn 1 (Str ''descr'') ''Budget Code Description'' keys,
       costType = selectedColumn 2 (Str ''type'') ''Cost Type'' keys,
       currentBudget = selectedColumn 3 (Str ''budget'') ''E - Current Contract Budget'' keys,
       billedToDate = selectedColumn 4 (Str ''billed'') ''J - Total Billed to Date'' keys,
       percentBilledCol =
         selectedColumn 5 (Seq (Str ''%'') (Seq (Star Dot) (Str ''billed''))) ''% Billed to Date'' keys,
       projectedCost =
         selectedColumn 6 (Alt (Str ''projected'') (Str ''forecast''))
           ''Q - Proj Cost @ Complete (J+P)'' keys,
       varianceCol =
         selectedColumn 7 (Alt (Str ''variance'') (Alt (Str ''over'') (Str ''under'')))
           ''(Over) / Under Budget (G-Q)'' keys \<rparr>"

text \<open>A value that is a string.\<close>

definition isString :: "jsval \<Rightarrow> bool" where
  "isString v = (case v of JStr s \<Rightarrow> True | _ \<Rightarrow> False)"


text \<open>
  A field of the map built by the loop is empty, or a key that the field's pattern matches
  in lower case.
\<close>

definition detectedOk :: "string set \<Rightarrow> rx \<Rightarrow> string \<Rightarrow> bool" where
  "detectedOk K r c = (c = [] \<or> (c \<in> K \<and> test r (toLowerCase c)))"

definition mapInv :: "string set \<Rightarrow> columnMap \<Rightarrow> bool" where
  "mapInv K m =
     (detectedOk K rxCostCode (costCode m) \<and>
      detectedOk K rxDescription (costCodeDescription m) \<and>
      detectedOk K rxCostType (costType m) \<and>
      detectedOk K rxCurrentBudget (currentBudget m) \<and>
      detectedOk K rxBilledToDate (billedToDate m) \<and>
      detectedOk K rxPercentBilled (percentBilledCol m) \<and>
      detectedOk K rxProjectedCost (projectedCost m) \<and>
      detectedOk K rxVariance (varianceCol m))"

text \<open>
  A column name \<open>c\<close> is selected for a field: it is not empty, and it is the field's
  default name \<open>d\<close> or a key that the field's pattern \<open>r\<close> or its fallback pattern
  \<open>r'\<close> matches without regard to case.
\<close>

definition selectedBy :: "string list \<Rightarrow> rx \<Rightarrow> rx \<Rightarrow> string \<Rightarrow> string \<Rightarrow> bool" where
  "selectedBy keys r r' d c =
     (c \<noteq> [] \<and> (c = d \<or> (c \<in> set keys \<and> (test r (toLowerCase c) \<or> testI r' c))))"

definition columnsSelected :: "string list \<Rightarrow> columnMap \<Rightarrow> bool" where
  "columnsSelected keys cm =
     (selectedBy keys rxCostCode (Str ''code'') ''Budget Code'' (costCode cm) \<and>
      selectedBy keys rxDescription (Str ''descr'') ''Budget Code Description'' (costCodeDescription cm) \<and>
      selectedBy keys rxCostType (Str ''type'') ''Cost Type'' (costType cm) \<and>
      selectedBy keys rxCurrentBudget (Str ''budget'') ''E - Current Contract Budget'' (currentBudget cm) \<and>
      selectedBy keys rxBilledToDate (Str ''billed'') ''J - Total Billed to Date'' (billedToDate cm) \<and>
      selectedBy keys rxPercentBilled (Seq (Str ''%'') (Seq (Star Dot) (Str ''billed'')))
        ''% Billed to Date'' (percentBilledCol cm) \<and>
      selectedBy keys rxProjectedCost (Alt (Str ''projected'') (Str ''forecast''))
        ''Q - Proj Cost @ Complete (J+P)'' (projectedCost cm) \<and>
      selectedBy keys rxVariance (Alt (Str ''variance'') (Alt (Str ''over'') (Str ''under'')))
        ''(Over) / Under Budget (G-Q)'' (varianceCol cm))"

definition allMapped :: "columnMap \<Rightarrow> bool" where
  "allMapped cm =
     (costCode cm \<noteq> [] \<and> costCodeDescription cm \<noteq> [] \<and> costType cm \<noteq> [] \<and>
      currentBudget cm \<noteq> [] \<and> billedToDate cm \<noteq> [] \<and> percentBilledCol cm \<noteq> [] \<and>
      projectedCost cm \<noteq> [] \<and> varianceCol cm \<noteq> [])"

text \<open>The threshold comparisons of the red-flag rules, and what a finding is known by.\<close>

definition scheduleVarianceOf :: "dashboard \<Rightarrow> jsnum" where
  "scheduleVarianceOf nd = jsub (percentTimeElapsed (projectData nd)) (percentBilled (projectData nd))"

definition behindCostType :: "cost_type_entry \<Rightarrow> bool" where
  "behindCostType ct = jlt (jsub (complete ct) (expectedComplete ct)) (Fin (- 15))"

definition behindDivision :: "division_entry \<Rightarrow> bool" where
  "behindDivision d = jlt (divVariance d) (Fin (- 20))"

definition titleType :: "finding \<Rightarrow> string \<times> string" where
  "titleType f = (title f, ftype f)"

text \<open>The percentage complete of a group of rows, before rounding.\<close>

text \<open>The item of a row, field by field, in the words of the specification.\<close>

definition itemOfRow :: "host \<Rightarrow> columnMap \<Rightarrow> row \<Rightarrow> budget_item" where
  "itemOfRow h cm r =
     \<lparr> itemName =
         (if truthy (getProp r (costCodeDescription cm)) then getProp r (costCodeDescription cm)
          else JStr ''Unnamed Item''),
       itemCostCode =
         (if truthy (getProp r (costCode cm)) then getProp r (costCode cm) else JStr []),
       budget =
         (if truthyN (parseFloat h (getProp r (currentBudget cm)))
          then parseFloat h (getProp r (currentBudget cm)) else Fin 0),
       billed =
         (if truthyN (parseFloat h (getProp r (billedToDate cm)))
          then parseFloat h (getProp r (billedToDate cm)) else Fin 0),
       itemPercentBilled =
         (if jgt (if truthyN (parseFloat h (getProp r (currentBudget cm)))
                  then parseFloat h (getProp r (currentBudget cm)) else Fin 0) (Fin 0)
          then jmul
            (jdiv (if truthyN (parseFloat h (getProp r (billedToDate cm)))
                   then parseFloat h (getProp r (billedToDate cm)) else Fin 0)
                  (parseFloat h (getProp r (currentBudget cm))))
            (Fin 100)
          else Fin 0),
       projected =
         (if truthyN (parseFloat h (getProp r (projectedCost cm)))
          then parseFloat h (getProp r (projectedCost cm))
          else if truthyN (parseFloat h (getProp r (currentBudget cm)))
          then parseFloat h (getProp r (currentBudget cm)) else Fin 0),
       variance =
         jsub (if truthyN (parseFloat h (getProp r (currentBudget cm)))
               then parseFloat h (getProp r (currentBudget cm)) else Fin 0)
              (if truthyN (parseFloat h (getProp r (projectedCost cm)))
               then parseFloat h (getProp r (projectedCost cm))
               else if truthyN (parseFloat h (getProp r (currentBudget cm)))
               then parseFloat h (getProp r (currentBudget cm)) else Fin 0) \<rparr>"

definition percentCompleteOf :: "host \<Rightarrow> columnMap \<Rightarrow> row list \<Rightarrow> jsnum" where
  "percentCompleteOf h cm items =
     jmul (jdiv (sumField h items (billedToDate cm)) (sumField h items (currentBudget cm))) (Fin 100)"

section \<open>Column detection: proofs\<close>

lemma mapInv_mapKey: "mapInv K m \<Longrightarrow> k \<in> K \<Longrightarrow> mapInv K (mapKey m k)"
  by (simp add: mapInv_def mapKey_def detectedOk_def Let_def)

lemma mapInv_foldl: "mapInv K m \<Longrightarrow> set ks \<subseteq> K \<Longrightarrow> mapInv K (foldl mapKey m ks)"
  by (induction ks arbitrary: m) (simp_all add: mapInv_mapKey)

lemma mapInv_empty: "mapInv K emptyColumnMap"
  by (simp add: mapInv_def emptyColumnMap_def detectedOk_def)

lemma findOr_cases:
  "d \<noteq> [] \<Longrightarrow>
   findOr r keys d \<noteq> [] \<and>
   (findOr r keys d = d \<or> (findOr r keys d \<in> set keys \<and> testI r (findOr r keys d)))"
  by (auto simp: findOr_def in_set_conv_nth split: option.splits dest: find_Some_iff[THEN iffD1])

lemma pick_selected:
  assumes "detectedOk (set keys) r c" and "d \<noteq> []"
  shows "selectedBy keys r r' d (pick (findOr r' keys d) c)"
  using assms findOr_cases[of d r' keys]
  by (auto simp: selectedBy_def pick_def detectedOk_def)

lemma detect_selected: "columnsSelected (objectKeys r) (detectAndMapColumns r)"
proof -
  have "mapInv (set (objectKeys r)) (foldl mapKey emptyColumnMap (objectKeys r))"
    by (rule mapInv_foldl[OF mapInv_empty]) simp
  then show ?thesis
    by (simp add: detectAndMapColumns_def Let_def mergeMappings_def inferColumnMappings_def
        mapInv_def columnsSelected_def pick_selected)
qed

lemma selected_mapped: "columnsSelected keys cm \<Longrightarrow> allMapped cm"
  by (simp add: columnsSelected_def allMapped_def selectedBy_def)

lemma normalize_rows:
  "normalizeBudgetData h (Some (r # rs)) pm =
     snd (processRows h (detectAndMapColumns r) (r # rs) (timeMetrics h pm (emptyResult h pm)))"
  by (simp add: normalizeBudgetData_def tryBlock_def Let_def)

lemma normalize_single:
  "normalizeBudgetData h (Some [r]) pm = snd (tryBlock h r [] pm (emptyResult h pm))"
  by (simp add: normalizeBudgetData_def)

lemma case_prodD: "(case t of (e, res) \<Rightarrow> P e res) \<Longrightarrow> P (fst t) (snd t)"
  by (simp add: case_prod_beta)

lemma detect_example: "detectAndMapColumns exampleRow = exampleColumns"
  by code_simp

lemma phase_example:
  "detectAndMapColumns phaseRow = phaseColumns"
  "selectedColumns (objectKeys phaseRow) = phaseColumns"
  by code_simp+

text \<open>No pattern of the chain and no fallback pattern matches the empty string.\<close>

lemma chain_no_empty: "list_all (\<lambda>r. \<not> test r []) chain"
  by code_simp

lemma fallback_no_empty:
  "\<not> testI (Str ''code'') []"
  "\<not> testI (Str ''descr'') []"
  "\<not> testI (Str ''type'') []"
  "\<not> testI (Str ''budget'') []"
  "\<not> testI (Str ''billed'') []"
  "\<not> testI (Seq (Str ''%'') (Seq (Star Dot) (Str ''billed''))) []"
  "\<not> testI (Alt (Str ''projected'') (Str ''forecast'')) []"
  "\<not> testI (Alt (Str ''variance'') (Alt (Str ''over'') (Str ''under''))) []"
  by code_simp+

lemma decides_nonempty: "decides i k \<Longrightarrow> k \<noteq> []"
proof
  assume d: "decides i k" and "k = []"
  then have "i < length chain" and "test (chain ! i) []"
    by (simp_all add: decides_def toLowerCase_def)
  with chain_no_empty show False
    by (simp add: list_all_length)
qed

lemma decides_unfold:
  "decides 0 k = test rxCostCode (toLowerCase k)"
  "decides (Suc 0) k = (\<not> test rxCostCode (toLowerCase k) \<and> test rxDescription (toLowerCase k))"
  "decides 2 k = (\<not> test rxCostCode (toLowerCase k) \<and> \<not> test rxDescription (toLowerCase k) \<and>
     test rxCostType (toLowerCase k))"
  "decides 3 k = (\<not> test rxCostCode (toLowerCase k) \<and> \<not> test rxDescription (toLowerCase k) \<and>
     \<not> test rxCostType (toLowerCase k) \<and> test rxCurrentBudget (toLowerCase k))"
  "decides 4 k = (\<not> test rxCostCode (toLowerCase k) \<and> \<not> test rxDescription (toLowerCase k) \<and>
     \<not> test rxCostType (toLowerCase k) \<and> \<not> test rxCurrentBudget (toLowerCase k) \<and>
     test rxBilledToDate (toLowerCase k))"
  "decides 5 k = (\<not> test rxCostCode (toLowerCase k) \<and> \<not> test rxDescription (toLowerCase k) \<and>
     \<not> test rxCostType (toLowerCase k) \<and> \<not> test rxCurrentBudget (toLowerCase k) \<and>
     \<not> test rxBilledToDate (toLowerCase k) \<and> test rxPercentBilled (toLowerCase k))"
  "decides 6 k = (\<not> test rxCostCode (toLowerCase k) \<and> \<not> test rxDescription (toLowerCase k) \<and>
     \<not> test rxCostType (toLowerCase k) \<and> \<not> test rxCurrentBudget (toLowerCase k) \<and>
     \<not> test rxBilledToDate (toLowerCase k) \<and> \<not> test rxPercentBilled (toLowerCase k) \<and>
     test rxProjectedCost (toLowerCase k))"
  "decides 7 k = (\<not> test rxCostCode (toLowerCase k) \<and> \<not> test rxDescription (toLowerCase k) \<and>
     \<not> test rxCostType (toLowerCase k) \<and> \<not> test rxCurrentBudget (toLowerCase k) \<and>
     \<not> test rxBilledToDate (toLowerCase k) \<and> \<not> test rxPercentBilled (toLowerCase k) \<and>
     \<not> test rxProjectedCost (toLowerCase k) \<and> test rxVariance (toLowerCase k))"
  by (auto simp: decides_def chain_def)

text \<open>A key sets the field of the pattern that decides it and leaves the other fields.\<close>

lemma mapKey_fields:
  "costCode (mapKey m k) = (if decides 0 k then k else costCode m)"
  "costCodeDescription (mapKey m k) = (if decides 1 k then k else costCodeDescription m)"
  "costType (mapKey m k) = (if decides 2 k then k else costType m)"
  "currentBudget (mapKey m k) = (if decides 3 k then k else currentBudget m)"
  "billedToDate (mapKey m k) = (if decides 4 k then k else billedToDate m)"
  "percentBilledCol (mapKey m k) = (if decides 5 k then k else percentBilledCol m)"
  "projectedCost (mapKey m k) = (if decides 6 k then k else projectedCost m)"
  "varianceCol (mapKey m k) = (if decides 7 k then k else varianceCol m)"
  by (simp_all add: mapKey_def Let_def decides_unfold)

lemma empty_fields:
  "costCode emptyColumnMap = []"
  "costCodeDescription emptyColumnMap = []"
  "costType emptyColumnMap = []"
  "currentBudget emptyColumnMap = []"
  "billedToDate emptyColumnMap = []"
  "percentBilledCol emptyColumnMap = []"
  "projectedCost emptyColumnMap = []"
  "varianceCol emptyColumnMap = []"
  by (simp_all add: emptyColumnMap_def)

text \<open>After the loop a field holds the last key that set it.\<close>

lemma last_decided:
  assumes step: "\<And>m k. fld (mapKey m k) = (if P k then k else fld m)"
  shows "fld (foldl mapKey m ks) =
    (case filter P ks of [] \<Rightarrow> fld m | k # ks' \<Rightarrow> last (k # ks'))"
proof (induction ks rule: rev_induct)
  case Nil
  then show ?case by simp
next
  case (snoc k ks)
  then show ?case
    by (auto simp: step split: list.splits)
qed

lemma field_selected:
  assumes fld: "c = (case filter (decides i) keys of [] \<Rightarrow> [] | k # ks' \<Rightarrow> last (k # ks'))"
    and fb: "\<not> testI fb []"
  shows "pick (findOr fb keys d) c = selectedColumn i fb d keys"
proof (cases "filter (decides i) keys")
  case Nil
  have "findOr fb keys d = (case find (testI fb) keys of Some k \<Rightarrow> k | None \<Rightarrow> d)"
  proof (cases "find (testI fb) keys")
    case None
    then show ?thesis by (simp add: findOr_def)
  next
    case (Some k)
    then have "testI fb k" by (auto simp: find_Some_iff)
    with fb have "k \<noteq> []" by auto
    with Some show ?thesis by (simp add: findOr_def)
  qed
  with Nil fld show ?thesis
    by (simp add: pick_def selectedColumn_def)
next
  case (Cons k ks')
  have "last (k # ks') \<in> set (filter (decides i) keys)"
    unfolding Cons by (rule last_in_set) simp
  then have "last (k # ks') \<noteq> []"
    using decides_nonempty[of i "last (k # ks')"] by auto
  with Cons fld show ?thesis
    by (simp add: pick_def selectedColumn_def)
qed

text \<open>The detection is the selection of the specification.\<close>

lemma detect_selectedColumns: "detectAndMapColumns r = selectedColumns (objectKeys r)"
proof -
  let ?keys = "objectKeys r"
  let ?m = "foldl mapKey emptyColumnMap ?keys"
  have f:
    "costCode ?m = (case filter (decides 0) ?keys of [] \<Rightarrow> [] | k # ks' \<Rightarrow> last (k # ks'))"
    "costCodeDescription ?m = (case filter (decides 1) ?keys of [] \<Rightarrow> [] | k # ks' \<Rightarrow> last (k # ks'))"
    "costType ?m = (case filter (decides 2) ?keys of [] \<Rightarrow> [] | k # ks' \<Rightarrow> last (k # ks'))"
    "currentBudget ?m = (case filter (decides 3) ?keys of [] \<Rightarrow> [] | k # ks' \<Rightarrow> last (k # ks'))"
    "billedToDate ?m = (case filter (decides 4) ?keys of [] \<Rightarrow> [] | k # ks' \<Rightarrow> last (k # ks'))"
    "percentBilledCol ?m = (case filter (decides 5) ?keys of [] \<Rightarrow> [] | k # ks' \<Rightarrow> last (k # ks'))"
    "projectedCost ?m = (case filter (decides 6) ?keys of [] \<Rightarrow> [] | k # ks' \<Rightarrow> last (k # ks'))"
    "varianceCol ?m = (case filter (decides 7) ?keys of [] \<Rightarrow> [] | k # ks' \<Rightarrow> last (k # ks'))"
    using last_decided[of costCode "decides 0", OF mapKey_fields(1), of emptyColumnMap ?keys, unfolded empty_fields]
      last_decided[of costCodeDescription "decides 1", OF mapKey_fields(2), of emptyColumnMap ?keys, unfolded empty_fields]
      last_decided[of costType "decides 2", OF mapKey_fields(3), of emptyColumnMap ?keys, unfolded empty_fields]
      last_decided[of currentBudget "decides 3", OF mapKey_fields(4), of emptyColumnMap ?keys, unfolded empty_fields]
      last_decided[of billedToDate "decides 4", OF mapKey_fields(5), of emptyColumnMap ?keys, unfolded empty_fields]
      last_decided[of percentBilledCol "decides 5", OF mapKey_fields(6), of emptyColumnMap ?keys, unfolded empty_fields]
      last_decided[of projectedCost "decides 6", OF mapKey_fields(7), of emptyColumnMap ?keys, unfolded empty_fields]
      last_decided[of varianceCol "decides 7", OF mapKey_fields(8), of emptyColumnMap ?keys, unfolded empty_fields]
    by simp_all
  show ?thesis
    unfolding detectAndMapColumns_def Let_def mergeMappings_def inferColumnMappings_def
      selectedColumns_def
    by (simp add: field_selected[OF f(1) fallback_no_empty(1)]
        field_selected[OF f(2) fallback_no_empty(2)]
        field_selected[OF f(3) fallback_no_empty(3)]
        field_selected[OF f(4) fallback_no_empty(4)]
        field_selected[OF f(5) fallback_no_empty(5)]
        field_selected[OF f(6) fallback_no_empty(6)]
        field_selected[OF f(7) fallback_no_empty(7)]
        field_selected[OF f(8) fallback_no_empty(8)])
qed

lemma detect_numeric: "detectAndMapColumns numericCodeRow = exampleColumns"
proof -
  have "objectKeys numericCodeRow = objectKeys exampleRow"
    by (simp add: objectKeys_def exampleRow_def numericCodeRow_def)
  then show ?thesis
    using detect_selectedColumns[of numericCodeRow] detect_selectedColumns[of exampleRow]
    by (simp add: detect_example)
qed

text \<open>
  C3. For a non-empty row list, the column map is computed from the keys of the first row
  alone: it is the selection described above applied to those keys, two first rows with the
  same keys give the same map, and the normalizer processes the rows with the map of the
  first row. The column of each of the eight fields is the last key that the field's pattern
  is the first of the chain to match in lower case; without such a key, the first key that
  the field's fallback pattern matches without regard to case; without one, the field's
  default name. So each field is a non-empty column name.
\<close>

theorem detectAndMapColumns_first_row_keys:
  "detectAndMapColumns r = selectedColumns (objectKeys r) \<and>
   (objectKeys r = objectKeys r' \<longrightarrow> detectAndMapColumns r = detectAndMapColumns r') \<and>
   columnsSelected (objectKeys r) (detectAndMapColumns r) \<and>
   allMapped (detectAndMapColumns r) \<and>
   normalizeBudgetData h (Some (r # rs)) pm =
     snd (processRows h (detectAndMapColumns r) (r # rs) (timeMetrics h pm (emptyResult h pm)))"
  using detect_selected[of r] selected_mapped[OF detect_selected[of r]] normalize_rows[of h r rs pm]
    detect_selectedColumns[of r] detect_selectedColumns[of r']
  by simp

theorem detectAndMapColumns_first_row_keys_witness:
  "objectKeys exampleRow = objectKeys numericCodeRow \<and>
   detectAndMapColumns exampleRow = detectAndMapColumns numericCodeRow \<and>
   detectAndMapColumns exampleRow = exampleColumns \<and>
   detectAndMapColumns phaseRow = selectedColumns (objectKeys phaseRow) \<and>
   selectedColumns (objectKeys phaseRow) = phaseColumns \<and>
   costCode (detectAndMapColumns phaseRow) = ''Cost Code'' \<and>
   billedToDate (detectAndMapColumns phaseRow) = ''Billed'' \<and>
   projectedCost (detectAndMapColumns phaseRow) = ''Q - Proj Cost @ Complete (J+P)'' \<and>
   allMapped exampleColumns"
proof -
  have keys: "objectKeys exampleRow = objectKeys numericCodeRow"
    by (simp add: objectKeys_def exampleRow_def numericCodeRow_def)
  have cols: "costCode phaseColumns = ''Cost Code''" "billedToDate phaseColumns = ''Billed''"
    "projectedCost phaseColumns = ''Q - Proj Cost @ Complete (J+P)''"
    by (simp_all add: phaseColumns_def)
  show ?thesis
    using detectAndMapColumns_first_row_keys[of exampleRow numericCodeRow exampleHost "[]" None]
      detectAndMapColumns_first_row_keys[of phaseRow phaseRow exampleHost "[]" None] keys cols
    by (simp add: detect_example phase_example)
qed

section \<open>The empty boundary\<close>

text \<open>
  C8. When the row list is \<open>null\<close>, \<open>undefined\<close> or empty, the normalizer returns the
  default record, whatever the metadata: the numeric fields of the project data are 0 and
  the five data arrays are empty. The function is total, so it does not throw.
\<close>

theorem normalizeBudgetData_empty_boundary:
  "normalizeBudgetData h None pm = emptyResult h pm \<and>
   normalizeBudgetData h (Some []) pm = emptyResult h pm \<and>
   daysElapsed (projectData (emptyResult h pm)) = Fin 0 \<and>
   percentTimeElapsed (projectData (emptyResult h pm)) = Fin 0 \<and>
   totalBudget (projectData (emptyResult h pm)) = JNum (Fin 0) \<and>
   totalBilled (projectData (emptyResult h pm)) = JNum (Fin 0) \<and>
   percentBilled (projectData (emptyResult h pm)) = Fin 0 \<and>
   projectedFinal (projectData (emptyResult h pm)) = JNum (Fin 0) \<and>
   projectedOverage (projectData (emptyResult h pm)) = JNum (Fin 0) \<and>
   percentOverage (projectData (emptyResult h pm)) = Fin 0 \<and>
   budgetData (emptyResult h pm) = [] \<and>
   timeData (emptyResult h pm) = [] \<and>
   budgetSpentData (emptyResult h pm) = [] \<and>
   costTypeData (emptyResult h pm) = [] \<and>
   divisionData (emptyResult h pm) = []"
  by (simp add: normalizeBudgetData_def emptyResult_def)

theorem normalizeBudgetData_empty_boundary_witness:
  "normalizeBudgetData exampleHost None None = emptyResult exampleHost None \<and>
   normalizeBudgetData exampleHost (Some []) (Some exampleMeta) = emptyResult exampleHost (Some exampleMeta) \<and>
   projectName (projectData (normalizeBudgetData exampleHost None None)) = ''Construction Project'' \<and>
   currentDate (projectData (normalizeBudgetData exampleHost None None)) = ''1/16/2024'' \<and>
   totalBudget (projectData (normalizeBudgetData exampleHost (Some []) (Some exampleMeta))) = JNum (Fin 0) \<and>
   divisionData (normalizeBudgetData exampleHost (Some []) (Some exampleMeta)) = []"
  using normalizeBudgetData_empty_boundary[of exampleHost None]
    normalizeBudgetData_empty_boundary[of exampleHost "Some exampleMeta"]
  by (simp add: emptyResult_def exampleHost_def metaField_def orElseS_def)

section \<open>Sorting\<close>

lemma ascLe_total: "ascLe a b \<or> ascLe b a"
  by (auto simp: ascLe_def jlt_def)

lemma ascLe_trans: "ascLe a b \<Longrightarrow> ascLe b c \<Longrightarrow> ascLe a c"
  by (auto simp: ascLe_def jlt_def)

lemma set_insertBy: "set (insertBy f x xs) = insert x (set xs)"
  by (induction xs) auto

lemma length_insertBy: "length (insertBy f x xs) = Suc (length xs)"
  by (induction xs) auto

lemma sorted_insertBy:
  "sorted_wrt (\<lambda>a b. ascLe (f a) (f b)) xs \<Longrightarrow>
   sorted_wrt (\<lambda>a b. ascLe (f a) (f b)) (insertBy f x xs)"
proof (induction xs)
  case Nil
  then show ?case by simp
next
  case (Cons y ys)
  show ?case
  proof (cases "ascLe (f x) (f y)")
    case True
    with Cons.prems show ?thesis by (auto intro: ascLe_trans)
  next
    case False
    then have "ascLe (f y) (f x)" using ascLe_total by blast
    with False Cons show ?thesis by (auto simp: set_insertBy)
  qed
qed

lemma mset_insertBy: "mset (insertBy f x xs) = add_mset x (mset xs)"
  by (induction xs) auto

lemma mset_sortBy: "mset (sortBy f xs) = mset xs"
  unfolding sortBy_def by (induction xs) (simp_all add: mset_insertBy)

lemma set_sortBy: "set (sortBy f xs) = set xs"
  unfolding sortBy_def by (induction xs) (simp_all add: set_insertBy)

lemma length_sortBy: "length (sortBy f xs) = length xs"
  unfolding sortBy_def by (induction xs) (simp_all add: length_insertBy)

lemma sorted_sortBy: "sorted_wrt (\<lambda>a b. ascLe (f a) (f b)) (sortBy f xs)"
  unfolding sortBy_def by (induction xs) (simp_all add: sorted_insertBy)

lemma jlt_jneg: "jlt (jneg b) (jneg a) = jlt a b"
  by (cases a; cases b) (auto simp: jlt_def)

lemma jneg_NaN: "jneg a = NaN \<longleftrightarrow> a = NaN"
  by (cases a) auto

lemma jlt_NaN: "\<not> jlt a NaN" "\<not> jlt NaN a"
  by (simp_all add: jlt_def)

lemma ascLe_jneg_not_jlt: "ascLe (jneg a) (jneg b) \<Longrightarrow> \<not> jlt a b"
  by (auto simp: ascLe_def jlt_jneg jneg_NaN jlt_NaN)

lemma ascLe_jneg_jge: "ascLe (jneg a) (jneg b) \<Longrightarrow> a \<noteq> NaN \<Longrightarrow> b \<noteq> NaN \<Longrightarrow> jge a b"
  by (auto simp: ascLe_def jge_def jlt_jneg jneg_NaN)

lemma sortBy_desc_never_increases:
  "sorted_wrt (\<lambda>a b. \<not> jlt (g a) (g b)) (sortBy (\<lambda>x. jneg (g x)) xs)"
  by (rule sorted_wrt_mono_rel[OF _ sorted_sortBy]) (simp add: ascLe_jneg_not_jlt)

lemma sortBy_desc_jge:
  assumes "\<forall>x\<in>set xs. g x \<noteq> NaN"
  shows "sorted_wrt (\<lambda>a b. jge (g a) (g b)) (sortBy (\<lambda>x. jneg (g x)) xs)"
  by (rule sorted_wrt_mono_rel[OF _ sorted_sortBy[of "\<lambda>x. jneg (g x)" xs]])
     (use assms in \<open>simp add: ascLe_jneg_jge set_sortBy\<close>)

lemma orElseN_not_NaN: "b \<noteq> NaN \<Longrightarrow> orElseN a b \<noteq> NaN"
  by (cases a) (auto simp: orElseN_def)

lemma budget_not_NaN: "budget (budgetItem h cm r) \<noteq> NaN"
  by (simp add: budgetItem_def Let_def orElseN_not_NaN)

section \<open>Top budget items\<close>

lemma budgetData_normalize:
  "budgetData (normalizeBudgetData h raw pm) = [] \<or>
   (\<exists>rows cm. budgetData (normalizeBudgetData h raw pm) = processTopBudgetItems h rows cm 5)"
proof -
  have tm: "budgetData (timeMetrics h pm (emptyResult h pm)) = []"
    by (simp add: timeMetrics_def emptyResult_def Let_def)
  show ?thesis
  proof (cases raw)
    case None
    then show ?thesis by (simp add: normalizeBudgetData_def emptyResult_def)
  next
    case (Some rows)
    show ?thesis
    proof (cases rows)
      case Nil
      with Some show ?thesis by (simp add: normalizeBudgetData_def emptyResult_def)
    next
      case (Cons r rs)
      with Some tm show ?thesis
        by (auto simp: normalize_rows processRows_def Let_def split: sum.splits)
    qed
  qed
qed

lemma top_items_examples:
  "processTopBudgetItems exampleHost [exampleRow, secondRow] exampleColumns 5 =
     [\<lparr> itemName = JStr ''Paint'', itemCostCode = JStr ''09-100'', budget = Fin 2500,
        billed = Fin 2000, itemPercentBilled = Fin 80, projected = Fin 2500, variance = Fin 0 \<rparr>,
      \<lparr> itemName = JStr ''Footings'', itemCostCode = JStr ''03-305'', budget = Fin 1000,
        billed = Fin 200, itemPercentBilled = Fin 20, projected = Fin 1100, variance = Fin (- 100) \<rparr>]"
  by code_simp

lemma six_example:
  "map budget (processTopBudgetItems exampleHost sixRows exampleColumns 5)
     = [Fin 900000, Fin 500, Fin 400, Fin 300, Fin 200]"
  "map itemCostCode (processTopBudgetItems exampleHost sixRows exampleColumns 5)
     = [JStr ''02-900'', JStr ''01-500'', JStr ''01-400'', JStr ''01-300'', JStr ''01-200'']"
  by code_simp+

lemma jgt_zero_zero: "\<not> jgt (Fin 0) (Fin 0)"
  by (simp add: jgt_def jlt_def)

text \<open>The item built from a row is the item of the specification.\<close>

lemma budgetItem_itemOfRow: "budgetItem h cm r = itemOfRow h cm r"
  by (simp add: budgetItem_def itemOfRow_def Let_def orElse_def orElseN_def jgt_zero_zero)

text \<open>
  C4. For every row list and every limit, \<open>processTopBudgetItems\<close> returns the first
  \<open>limit\<close> items of the items of all the rows arranged in non-increasing order of their
  budget: the items returned are in that order, there are at most \<open>limit\<close> of them (as
  many as there are rows, if fewer), and no item left out has a larger budget than one
  returned. With the default limit 5, which the normalizer uses, there are at most 5 items.
  Each item is built from a row: its name is the description cell (or "Unnamed Item"), its
  cost code the cost-code cell (or ""), its budget and billed amount the parsed
  current-budget and billed cells (0 when a cell does not parse), its percent billed
  \<open>(billed / budget) * 100\<close> when the budget is positive and 0 otherwise, its projected
  cost the parsed projected-cost cell (the budget when that is NaN or 0), and its variance
  \<open>budget - projected\<close>.
\<close>

theorem processTopBudgetItems_ranked:
  "(\<exists>s. mset s = mset (map (budgetItem h cm) rows) \<and>
        sorted_wrt (\<lambda>a b. jge (budget a) (budget b)) s \<and>
        processTopBudgetItems h rows cm limit = take limit s) \<and>
   sorted_wrt (\<lambda>a b. jge (budget a) (budget b)) (processTopBudgetItems h rows cm limit) \<and>
   length (processTopBudgetItems h rows cm limit) = min limit (length rows) \<and>
   length (processTopBudgetItems h rows cm 5) \<le> 5 \<and>
   length (budgetData (normalizeBudgetData h raw pm)) \<le> 5 \<and>
   set (processTopBudgetItems h rows cm limit) \<subseteq> budgetItem h cm ` set rows \<and>
   (\<forall>r. budgetItem h cm r = itemOfRow h cm r) \<and>
   (\<forall>r. budget (budgetItem h cm r) =
      (if truthyN (parseFloat h (getProp r (currentBudget cm)))
       then parseFloat h (getProp r (currentBudget cm)) else Fin 0)) \<and>
   (\<forall>r. parseFloat h (getProp r (currentBudget cm)) = NaN \<longrightarrow> budget (budgetItem h cm r) = Fin 0)"
proof -
  let ?items = "map (budgetItem h cm) rows"
  let ?s = "sortBy (\<lambda>item. jneg (budget item)) ?items"
  have sorted: "sorted_wrt (\<lambda>a b. jge (budget a) (budget b)) ?s"
    by (rule sortBy_desc_jge) (auto simp: budget_not_NaN)
  have "mset ?s = mset ?items"
    by (rule mset_sortBy)
  with sorted have ex: "\<exists>s. mset s = mset ?items \<and>
        sorted_wrt (\<lambda>a b. jge (budget a) (budget b)) s \<and>
        processTopBudgetItems h rows cm limit = take limit s"
    unfolding processTopBudgetItems_def by blast
  from sorted
  have st: "sorted_wrt (\<lambda>a b. jge (budget a) (budget b)) (processTopBudgetItems h rows cm limit)"
    unfolding processTopBudgetItems_def by (rule sorted_wrt_take)
  have sub: "set (processTopBudgetItems h rows cm limit) \<subseteq> budgetItem h cm ` set rows"
    unfolding processTopBudgetItems_def
    using set_take_subset[of limit ?s]
    by (simp add: set_sortBy)
  have len: "length (budgetData (normalizeBudgetData h raw pm)) \<le> 5"
    using budgetData_normalize[of h raw pm] by (auto simp: processTopBudgetItems_def)
  have fields: "\<forall>r. budget (budgetItem h cm r) =
      (if truthyN (parseFloat h (getProp r (currentBudget cm)))
       then parseFloat h (getProp r (currentBudget cm)) else Fin 0)"
    "\<forall>r. parseFloat h (getProp r (currentBudget cm)) = NaN \<longrightarrow> budget (budgetItem h cm r) = Fin 0"
    by (simp_all add: budgetItem_def Let_def orElseN_def)
  have lens: "length (processTopBudgetItems h rows cm limit) = min limit (length rows)"
    "length (processTopBudgetItems h rows cm 5) \<le> 5"
    by (simp_all add: processTopBudgetItems_def length_sortBy)
  from ex st sub len fields lens budgetItem_itemOfRow show ?thesis
    by blast
qed

theorem processTopBudgetItems_ranked_witness:
  "map budget (processTopBudgetItems exampleHost sixRows exampleColumns 5)
     = [Fin 900000, Fin 500, Fin 400, Fin 300, Fin 200] \<and>
   map itemCostCode (processTopBudgetItems exampleHost sixRows exampleColumns 5)
     = [JStr ''02-900'', JStr ''01-500'', JStr ''01-400'', JStr ''01-300'', JStr ''01-200''] \<and>
   sorted_wrt (\<lambda>a b. jge (budget a) (budget b))
     (processTopBudgetItems exampleHost sixRows exampleColumns 5) \<and>
   length (processTopBudgetItems exampleHost sixRows exampleColumns 5) = 5 \<and>
   processTopBudgetItems exampleHost [exampleRow, secondRow] exampleColumns 5 =
     [\<lparr> itemName = JStr ''Paint'', itemCostCode = JStr ''09-100'', budget = Fin 2500,
        billed = Fin 2000, itemPercentBilled = Fin 80, projected = Fin 2500, variance = Fin 0 \<rparr>,
      \<lparr> itemName = JStr ''Footings'', itemCostCode = JStr ''03-305'', budget = Fin 1000,
        billed = Fin 200, itemPercentBilled = Fin 20, projected = Fin 1100, variance = Fin (- 100) \<rparr>]"
proof -
  have "length (map budget (processTopBudgetItems exampleHost sixRows exampleColumns 5)) = 5"
    unfolding six_example by simp
  then have len: "length (processTopBudgetItems exampleHost sixRows exampleColumns 5) = 5"
    by simp
  from processTopBudgetItems_ranked[of exampleHost exampleColumns sixRows 5 None None]
  have "sorted_wrt (\<lambda>a b. jge (budget a) (budget b))
     (processTopBudgetItems exampleHost sixRows exampleColumns 5)"
    by blast
  with len six_example top_items_examples show ?thesis
    by blast
qed

section \<open>Division data\<close>

lemma divisionData_normalize:
  "divisionData (normalizeBudgetData h raw pm) = [] \<or>
   (\<exists>g cm e. divisionData (normalizeBudgetData h raw pm) = processDivisionData h g cm e)"
proof -
  have tm: "divisionData (timeMetrics h pm (emptyResult h pm)) = []"
    by (simp add: timeMetrics_def emptyResult_def Let_def)
  show ?thesis
  proof (cases raw)
    case None
    then show ?thesis by (simp add: normalizeBudgetData_def emptyResult_def)
  next
    case (Some rows)
    show ?thesis
    proof (cases rows)
      case Nil
      with Some show ?thesis by (simp add: normalizeBudgetData_def emptyResult_def)
    next
      case (Cons r rs)
      with Some tm show ?thesis
        by (auto simp: normalize_rows processRows_def Let_def split: sum.splits)
    qed
  qed
qed

lemma division_examples:
  "processDivisionData exampleHost [(''Div 03'', [exampleRow]), (''Div 09'', [secondRow])]
     exampleColumns (Fin 50) =
     [\<lparr> divName = JStr ''Div 09'', divComplete = Fin 80, expected = Fin 50, divVariance = Fin 30 \<rparr>,
      \<lparr> divName = JStr ''Div 03'', divComplete = Fin 20, expected = Fin 50, divVariance = Fin (- 30) \<rparr>]"
  by code_simp

text \<open>
  C10. For every input, the division list that \<open>processDivisionData\<close> returns, and so the
  division list of the record the normalizer returns, is in non-increasing order of
  \<open>complete\<close>: no entry is less complete than one that comes after it. When no entry has
  the value NaN, each entry's value is \<open>>=\<close> the value of every later entry.
\<close>

theorem processDivisionData_most_complete_first:
  "sorted_wrt (\<lambda>a b. \<not> jlt (divComplete a) (divComplete b)) (processDivisionData h g cm e) \<and>
   sorted_wrt (\<lambda>a b. \<not> jlt (divComplete a) (divComplete b))
     (divisionData (normalizeBudgetData h raw pm)) \<and>
   ((\<forall>d\<in>set (processDivisionData h g cm e). divComplete d \<noteq> NaN) \<longrightarrow>
      sorted_wrt (\<lambda>a b. jge (divComplete a) (divComplete b)) (processDivisionData h g cm e))"
proof -
  have a: "sorted_wrt (\<lambda>a b. \<not> jlt (divComplete a) (divComplete b)) (processDivisionData h g' cm' e')"
    for g' cm' e'
    unfolding processDivisionData_def by (rule sortBy_desc_never_increases)
  have b: "sorted_wrt (\<lambda>a b. \<not> jlt (divComplete a) (divComplete b))
     (divisionData (normalizeBudgetData h raw pm))"
    using divisionData_normalize[of h raw pm] a by auto
  have c: "sorted_wrt (\<lambda>a b. jge (divComplete a) (divComplete b)) (processDivisionData h g cm e)"
    if "\<forall>d\<in>set (processDivisionData h g cm e). divComplete d \<noteq> NaN"
    unfolding processDivisionData_def
    by (rule sortBy_desc_jge) (use that in \<open>simp add: processDivisionData_def set_sortBy\<close>)
  from a b c show ?thesis by blast
qed

theorem processDivisionData_most_complete_first_witness:
  "map divComplete (processDivisionData exampleHost
       [(''Div 03'', [exampleRow]), (''Div 09'', [secondRow])] exampleColumns (Fin 50))
     = [Fin 80, Fin 20] \<and>
   sorted_wrt (\<lambda>a b. jge (divComplete a) (divComplete b))
     (processDivisionData exampleHost
       [(''Div 03'', [exampleRow]), (''Div 09'', [secondRow])] exampleColumns (Fin 50))"
  using processDivisionData_most_complete_first[of exampleHost
      "[(''Div 03'', [exampleRow]), (''Div 09'', [secondRow])]" exampleColumns "Fin 50" None None]
  by (simp add: division_examples)

section \<open>Red flags: proofs\<close>

lemma splitFirst_string: "isString v \<Longrightarrow> \<exists>w. splitFirst v = Inr w"
  by (cases v) (simp_all add: isString_def splitFirst_def)

lemma splitFirst_other: "\<not> isString v \<Longrightarrow> \<exists>e. splitFirst v = Inl e"
  by (cases v) (simp_all add: isString_def splitFirst_def)

text \<open>The check of a cost type throws exactly for an entry that is behind and whose name is
  not a string; otherwise it pushes one finding for an entry that is behind, and none for
  another.\<close>

lemma costTypeCheck_throws:
  "(\<exists>e. costTypeCheck h fs ct = Inl e) \<longleftrightarrow> (behindCostType ct \<and> \<not> isString (ctName ct))"
proof (cases "isString (ctName ct)")
  case True
  then obtain w where "splitFirst (ctName ct) = Inr w"
    using splitFirst_string by blast
  with True show ?thesis
    by (simp add: costTypeCheck_def Let_def)
next
  case False
  then obtain e where "splitFirst (ctName ct) = Inl e"
    using splitFirst_other by blast
  with False show ?thesis
    by (simp add: costTypeCheck_def Let_def behindCostType_def)
qed

lemma costTypeCheck_returns:
  assumes "costTypeCheck h fs ct = Inr fs'"
  shows "\<exists>new. fs' = fs @ new \<and>
    map titleType new =
      (if behindCostType ct then [(toString h (ctName ct) @ '' Progress Concern'', ''danger'')]
       else [])"
  using assms
  by (auto simp: costTypeCheck_def Let_def behindCostType_def titleType_def
      split: if_splits sum.splits)

lemma forEachE_costTypeCheck_throws:
  "(\<exists>e. forEachE (costTypeCheck h) fs cts = Inl e) \<longleftrightarrow>
   (\<exists>ct\<in>set cts. behindCostType ct \<and> \<not> isString (ctName ct))"
proof (induction cts arbitrary: fs)
  case Nil
  then show ?case by simp
next
  case (Cons ct cts)
  show ?case
  proof (cases "costTypeCheck h fs ct")
    case (Inl e)
    then have "behindCostType ct \<and> \<not> isString (ctName ct)"
      using costTypeCheck_throws[of h fs ct] by auto
    with Inl show ?thesis by auto
  next
    case (Inr fs')
    then have "\<not> (behindCostType ct \<and> \<not> isString (ctName ct))"
      using costTypeCheck_throws[of h fs ct] by auto
    with Inr Cons.IH[of fs'] show ?thesis by auto
  qed
qed

lemma forEachE_costTypeCheck_returns:
  assumes "forEachE (costTypeCheck h) fs cts = Inr fs'"
  shows "\<exists>new. fs' = fs @ new \<and>
    map titleType new =
      map (\<lambda>ct. (toString h (ctName ct) @ '' Progress Concern'', ''danger''))
        (filter behindCostType cts)"
  using assms
proof (induction cts arbitrary: fs)
  case Nil
  then show ?case by simp
next
  case (Cons ct cts)
  from Cons.prems obtain fs1 where one: "costTypeCheck h fs ct = Inr fs1"
    and rest: "forEachE (costTypeCheck h) fs1 cts = Inr fs'"
    by (auto split: sum.splits)
  from costTypeCheck_returns[OF one] obtain new1 where n1: "fs1 = fs @ new1"
    "map titleType new1 =
      (if behindCostType ct then [(toString h (ctName ct) @ '' Progress Concern'', ''danger'')]
       else [])"
    by blast
  from Cons.IH[OF rest] obtain new2 where n2: "fs' = fs1 @ new2"
    "map titleType new2 =
      map (\<lambda>ct. (toString h (ctName ct) @ '' Progress Concern'', ''danger''))
        (filter behindCostType cts)"
    by blast
  have "fs' = fs @ (new1 @ new2)"
    using n1(1) n2(1) by simp
  moreover have "map titleType (new1 @ new2) =
      map (\<lambda>ct. (toString h (ctName ct) @ '' Progress Concern'', ''danger''))
        (filter behindCostType (ct # cts))"
    using n1(2) n2(2) by simp
  ultimately show ?case by blast
qed

lemma divisionCheck_append: "divisionCheck h fs d = fs @ divisionCheck h [] d"
  by (simp add: divisionCheck_def)

lemma foldl_divisionCheck:
  "foldl (divisionCheck h) fs ds = fs @ concat (map (divisionCheck h []) ds)"
proof (induction ds arbitrary: fs)
  case Nil
  then show ?case by simp
next
  case (Cons d ds)
  show ?case
    using Cons.IH[of "divisionCheck h fs d"] divisionCheck_append[of h fs d] by simp
qed

lemma titles_divisionCheck:
  "map titleType (concat (map (divisionCheck h []) ds)) =
   map (\<lambda>d. (toString h (divName d) @ '' Behind Schedule'', ''danger'')) (filter behindDivision ds)"
  by (induction ds) (simp_all add: divisionCheck_def behindDivision_def titleType_def)

lemma titles_scheduleCheck:
  "map titleType (scheduleCheck h (projectData nd) fs) =
     map titleType fs @
     (if jgt (scheduleVarianceOf nd) (Fin 5)
      then [(''Schedule Status'',
             if jgt (scheduleVarianceOf nd) (Fin 10) then ''danger'' else ''warning'')]
      else [])"
  by (simp add: scheduleCheck_def Let_def scheduleVarianceOf_def titleType_def)

lemma titles_budgetCheck:
  "map titleType (budgetCheck h (projectData nd) fs) =
     map titleType fs @
     (if jgt (percentOverage (projectData nd)) (Fin 0)
      then [(''Budget Concerns'',
             if jgt (percentOverage (projectData nd)) (Fin 5) then ''danger'' else ''warning'')]
      else [])"
  by (simp add: budgetCheck_def titleType_def)

text \<open>The function throws exactly when the loop over the cost types does.\<close>

lemma identify_cases:
  "identifyProjectRedFlags h nd =
     (case forEachE (costTypeCheck h) (scheduleCheck h (projectData nd) []) (costTypeData nd) of
        Inl e \<Rightarrow> Inl e
      | Inr f1 \<Rightarrow>
          Inr (budgetCheck h (projectData nd) (foldl (divisionCheck h) f1 (divisionData nd))))"
  by (simp add: identifyProjectRedFlags_def Let_def split: sum.splits)

lemma identify_throws:
  "(\<exists>e. identifyProjectRedFlags h nd = Inl e) \<longleftrightarrow>
   (\<exists>ct\<in>set (costTypeData nd). behindCostType ct \<and> \<not> isString (ctName ct))"
proof -
  have "(\<exists>e. identifyProjectRedFlags h nd = Inl e) \<longleftrightarrow>
    (\<exists>e. forEachE (costTypeCheck h) (scheduleCheck h (projectData nd) []) (costTypeData nd) = Inl e)"
    unfolding identify_cases
    by (cases "forEachE (costTypeCheck h) (scheduleCheck h (projectData nd) []) (costTypeData nd)")
      simp_all
  then show ?thesis
    unfolding forEachE_costTypeCheck_throws .
qed

text \<open>The titles and types of the findings returned, in the order the function pushes them.\<close>

lemma titles_identify:
  assumes "identifyProjectRedFlags h nd = Inr fs"
  shows "map titleType fs =
     (if jgt (scheduleVarianceOf nd) (Fin 5)
      then [(''Schedule Status'',
             if jgt (scheduleVarianceOf nd) (Fin 10) then ''danger'' else ''warning'')]
      else []) @
     map (\<lambda>ct. (toString h (ctName ct) @ '' Progress Concern'', ''danger''))
       (filter behindCostType (costTypeData nd)) @
     map (\<lambda>d. (toString h (divName d) @ '' Behind Schedule'', ''danger''))
       (filter behindDivision (divisionData nd)) @
     (if jgt (percentOverage (projectData nd)) (Fin 0)
      then [(''Budget Concerns'',
             if jgt (percentOverage (projectData nd)) (Fin 5) then ''danger'' else ''warning'')]
      else [])"
proof -
  let ?f0 = "scheduleCheck h (projectData nd) []"
  from assms obtain f1 where loop: "forEachE (costTypeCheck h) ?f0 (costTypeData nd) = Inr f1"
    and fs: "fs = budgetCheck h (projectData nd) (foldl (divisionCheck h) f1 (divisionData nd))"
    unfolding identify_cases by (auto split: sum.splits)
  from forEachE_costTypeCheck_returns[OF loop] obtain new where new: "f1 = ?f0 @ new"
    "map titleType new =
      map (\<lambda>ct. (toString h (ctName ct) @ '' Progress Concern'', ''danger''))
        (filter behindCostType (costTypeData nd))"
    by blast
  have "map titleType (foldl (divisionCheck h) f1 (divisionData nd)) =
      map titleType ?f0 @ map titleType new @
      map (\<lambda>d. (toString h (divName d) @ '' Behind Schedule'', ''danger''))
        (filter behindDivision (divisionData nd))"
    unfolding foldl_divisionCheck new(1) by (simp add: titles_divisionCheck)
  then show ?thesis
    unfolding fs titles_budgetCheck by (simp add: titles_scheduleCheck new(2))
qed

lemma suffix_last: "suffix a x \<Longrightarrow> a \<noteq> [] \<Longrightarrow> last x = last a"
  by (auto simp: suffix_def)

text \<open>The four kinds of title are told apart by how they end.\<close>

lemma title_facts:
  "suffix '' Progress Concern'' (n @ '' Progress Concern'')"
  "suffix '' Behind Schedule'' (n @ '' Behind Schedule'')"
  "\<not> suffix '' Progress Concern'' (n @ '' Behind Schedule'')"
  "\<not> suffix '' Behind Schedule'' (n @ '' Progress Concern'')"
  "\<not> suffix '' Progress Concern'' ''Schedule Status''"
  "\<not> suffix '' Behind Schedule'' ''Schedule Status''"
  "\<not> suffix '' Progress Concern'' ''Budget Concerns''"
  "\<not> suffix '' Behind Schedule'' ''Budget Concerns''"
  "n @ '' Progress Concern'' \<noteq> ''Schedule Status''"
  "n @ '' Behind Schedule'' \<noteq> ''Schedule Status''"
  "n @ '' Progress Concern'' \<noteq> ''Budget Concerns''"
  "n @ '' Behind Schedule'' \<noteq> ''Budget Concerns''"
proof -
  show "suffix '' Progress Concern'' (n @ '' Progress Concern'')" by (simp add: suffix_def)
  show "suffix '' Behind Schedule'' (n @ '' Behind Schedule'')" by (simp add: suffix_def)
  show "\<not> suffix '' Progress Concern'' (n @ '' Behind Schedule'')"
    using suffix_last[of "'' Progress Concern''" "n @ '' Behind Schedule''"] by auto
  show "\<not> suffix '' Behind Schedule'' (n @ '' Progress Concern'')"
    using suffix_last[of "'' Behind Schedule''" "n @ '' Progress Concern''"] by auto
  show "\<not> suffix '' Progress Concern'' ''Schedule Status''"
    using suffix_last[of "'' Progress Concern''" "''Schedule Status''"] by auto
  show "\<not> suffix '' Behind Schedule'' ''Schedule Status''"
    using suffix_last[of "'' Behind Schedule''" "''Schedule Status''"] by auto
  show "\<not> suffix '' Progress Concern'' ''Budget Concerns''"
    using suffix_last[of "'' Progress Concern''" "''Budget Concerns''"] by auto
  show "\<not> suffix '' Behind Schedule'' ''Budget Concerns''"
    using suffix_last[of "'' Behind Schedule''" "''Budget Concerns''"] by auto
  have l: "last (n @ '' Progress Concern'') = CHR ''n''" "last (n @ '' Behind Schedule'') = CHR ''e''"
    by simp_all
  show "n @ '' Progress Concern'' \<noteq> ''Schedule Status''" using l(1) by auto
  show "n @ '' Behind Schedule'' \<noteq> ''Schedule Status''" using l(2) by auto
  show "n @ '' Progress Concern'' \<noteq> ''Budget Concerns''" using l(1) by auto
  show "n @ '' Behind Schedule'' \<noteq> ''Budget Concerns''" using l(2) by auto
qed

lemma titled_iff:
  "(\<exists>f\<in>set fs. title f = t \<and> P (ftype f)) \<longleftrightarrow> (\<exists>p\<in>set (map titleType fs). fst p = t \<and> P (snd p))"
  by (auto simp: titleType_def)

lemma titled_filter:
  "map title (filter (\<lambda>f. Q (title f)) fs) = map fst (filter (\<lambda>p. Q (fst p)) (map titleType fs))"
  by (induction fs) (simp_all add: titleType_def)

lemma red_flags_eval:
  "case tryBlock exampleHost exampleRow [] (Some exampleMeta)
       (emptyResult exampleHost (Some exampleMeta)) of
     (e, res) \<Rightarrow>
       identifyProjectRedFlags exampleHost res =
         Inr
          [\<lparr> title = ''Schedule Status'',
             description =
               ''Project is 30.0% behind schedule (50.0% time elapsed vs 20.0% budget spent)'',
             ftype = ''danger'',
             recommendation = ''Review schedule and accelerate critical path activities'' \<rparr>,
           \<lparr> title = ''Labor (L) Progress Concern'',
             description = ''Labor (L) only 20.0% complete vs expected 50.0%'',
             ftype = ''danger'',
             recommendation = ''Expedite Labor procurement and activities'' \<rparr>,
           \<lparr> title = ''Div 03 Behind Schedule'',
             description = ''Div 03 only 20.0% complete vs expected 50.0%'',
             ftype = ''danger'',
             recommendation = ''Prioritize Div 03 activities to prevent cascading delays'' \<rparr>,
           \<lparr> title = ''Budget Concerns'',
             description = ''Projected overrun of $100 (10.0% over budget)'',
             ftype = ''danger'',
             recommendation = ''Review contingency usage and implement cost controls'' \<rparr>] \<and>
       scheduleVarianceOf res = Fin 30 \<and>
       list_all (\<lambda>ct. isString (ctName ct)) (costTypeData res)"
  by code_simp

lemma red_flags_example:
  "identifyProjectRedFlags exampleHost
      (normalizeBudgetData exampleHost (Some [exampleRow]) (Some exampleMeta)) =
     Inr
      [\<lparr> title = ''Schedule Status'',
         description =
           ''Project is 30.0% behind schedule (50.0% time elapsed vs 20.0% budget spent)'',
         ftype = ''danger'',
         recommendation = ''Review schedule and accelerate critical path activities'' \<rparr>,
       \<lparr> title = ''Labor (L) Progress Concern'',
         description = ''Labor (L) only 20.0% complete vs expected 50.0%'',
         ftype = ''danger'',
         recommendation = ''Expedite Labor procurement and activities'' \<rparr>,
       \<lparr> title = ''Div 03 Behind Schedule'',
         description = ''Div 03 only 20.0% complete vs expected 50.0%'',
         ftype = ''danger'',
         recommendation = ''Prioritize Div 03 activities to prevent cascading delays'' \<rparr>,
       \<lparr> title = ''Budget Concerns'',
         description = ''Projected overrun of $100 (10.0% over budget)'',
         ftype = ''danger'',
         recommendation = ''Review contingency usage and implement cost controls'' \<rparr>]"
  "scheduleVarianceOf (normalizeBudgetData exampleHost (Some [exampleRow]) (Some exampleMeta)) = Fin 30"
  "list_all (\<lambda>ct. isString (ctName ct))
     (costTypeData (normalizeBudgetData exampleHost (Some [exampleRow]) (Some exampleMeta)))"
  using case_prodD[OF red_flags_eval] by (simp_all add: normalize_single)

lemma rounding_eval:
  "scheduleVarianceOf roundingDashboard = toDouble (5000000000000001 / 1000000000000000)"
  "jgt (toDouble (5000000000000001 / 1000000000000000)) (Fin 5)"
  "identifyProjectRedFlags exampleHost roundingDashboard =
     Inr
      [\<lparr> title = ''Schedule Status'',
         description = ''Project is 5.0% behind schedule (8.3% time elapsed vs 3.3% budget spent)'',
         ftype = ''warning'',
         recommendation = ''Review schedule and accelerate critical path activities'' \<rparr>]"
  by code_simp+

lemma rounding_example:
  "jgt (scheduleVarianceOf roundingDashboard) (Fin 5)"
  by (simp add: rounding_eval)

lemma constructor_eval:
  "case tryBlock exampleHost constructorRow [] (Some exampleMeta)
       (emptyResult exampleHost (Some exampleMeta)) of
     (e, res) \<Rightarrow>
       map ctName (costTypeData res) = [JObj ''constructor''] \<and>
       list_all behindCostType (costTypeData res) \<and>
       jgt (scheduleVarianceOf res) (Fin 5) \<and>
       identifyProjectRedFlags exampleHost res
         = Inl (TypeError ''costType.name.split is not a function'')"
  by code_simp

lemma constructor_example:
  "map ctName (costTypeData (normalizeBudgetData exampleHost (Some [constructorRow])
     (Some exampleMeta))) = [JObj ''constructor'']"
  "list_all behindCostType (costTypeData (normalizeBudgetData exampleHost (Some [constructorRow])
     (Some exampleMeta)))"
  "jgt (scheduleVarianceOf (normalizeBudgetData exampleHost (Some [constructorRow])
     (Some exampleMeta))) (Fin 5)"
  "identifyProjectRedFlags exampleHost
     (normalizeBudgetData exampleHost (Some [constructorRow]) (Some exampleMeta))
     = Inl (TypeError ''costType.name.split is not a function'')"
  using case_prodD[OF constructor_eval] by (simp_all add: normalize_single)

text \<open>
  C5 at a row whose cost type is "constructor": the lookup of the cost type in the table of
  names finds the inherited property of that name, so the name of the cost-type entry is a
  function and not a string. The entry is behind and the schedule comparison fires, but the
  call of \<open>split\<close> on the name throws, and \<open>identifyProjectRedFlags\<close> produces no finding.
\<close>

theorem identifyProjectRedFlags_throws_on_inherited_name:
  "map ctName (costTypeData (normalizeBudgetData exampleHost (Some [constructorRow])
     (Some exampleMeta))) = [JObj ''constructor''] \<and>
   list_all behindCostType (costTypeData (normalizeBudgetData exampleHost (Some [constructorRow])
     (Some exampleMeta))) \<and>
   jgt (scheduleVarianceOf (normalizeBudgetData exampleHost (Some [constructorRow])
     (Some exampleMeta))) (Fin 5) \<and>
   identifyProjectRedFlags exampleHost
     (normalizeBudgetData exampleHost (Some [constructorRow]) (Some exampleMeta))
     = Inl (TypeError ''costType.name.split is not a function'')"
  using constructor_example by simp

text \<open>
  Apart from that lookup the findings are those of the threshold comparisons. When the name
  of every cost-type entry is a string, \<open>identifyProjectRedFlags\<close> returns, and its findings
  are those of its comparisons, the differences being those of binary64. There is a finding titled "Schedule Status" if and only if
  \<open>percentTimeElapsed - percentBilled > 5\<close>, of type "danger" if the difference is
  \<open>> 10\<close> and "warning" otherwise. The findings whose title ends with
  " Progress Concern" are, in order, those of the cost-type entries with
  \<open>complete - expectedComplete < -15\<close>; the findings whose title ends with
  " Behind Schedule" are, in order, those of the division entries with \<open>variance < -20\<close>.
  There is a finding titled "Budget Concerns" if and only if \<open>percentOverage > 0\<close>, of type
  "danger" if \<open>percentOverage > 5\<close> and "warning" otherwise. There are no other findings:
  the number of findings is the number of comparisons that fire.
\<close>

theorem identifyProjectRedFlags_thresholds:
  assumes "\<forall>ct\<in>set (costTypeData nd). isString (ctName ct)"
  shows "\<exists>fs. identifyProjectRedFlags h nd = Inr fs \<and>
   ((\<exists>f\<in>set fs. title f = ''Schedule Status'') \<longleftrightarrow> jgt (scheduleVarianceOf nd) (Fin 5)) \<and>
   (\<forall>f\<in>set fs. title f = ''Schedule Status'' \<longrightarrow>
      ftype f = (if jgt (scheduleVarianceOf nd) (Fin 10) then ''danger'' else ''warning'')) \<and>
   map title (filter (\<lambda>f. suffix '' Progress Concern'' (title f)) fs)
     = map (\<lambda>ct. toString h (ctName ct) @ '' Progress Concern'')
         (filter behindCostType (costTypeData nd)) \<and>
   map title (filter (\<lambda>f. suffix '' Behind Schedule'' (title f)) fs)
     = map (\<lambda>d. toString h (divName d) @ '' Behind Schedule'')
         (filter behindDivision (divisionData nd)) \<and>
   ((\<exists>f\<in>set fs. title f = ''Budget Concerns'') \<longleftrightarrow> jgt (percentOverage (projectData nd)) (Fin 0)) \<and>
   (\<forall>f\<in>set fs. title f = ''Budget Concerns'' \<longrightarrow>
      ftype f = (if jgt (percentOverage (projectData nd)) (Fin 5) then ''danger'' else ''warning'')) \<and>
   length fs =
     (if jgt (scheduleVarianceOf nd) (Fin 5) then 1 else 0) +
     length (filter behindCostType (costTypeData nd)) +
     length (filter behindDivision (divisionData nd)) +
     (if jgt (percentOverage (projectData nd)) (Fin 0) then 1 else 0)"
proof -
  from assms have "\<not> (\<exists>e. identifyProjectRedFlags h nd = Inl e)"
    using identify_throws[of h nd] by blast
  then obtain fs where ret: "identifyProjectRedFlags h nd = Inr fs"
    by (cases "identifyProjectRedFlags h nd") auto
  note T = titles_identify[OF ret]
  have len: "length fs = length (map titleType fs)"
    by simp
  have ex: "(\<exists>f\<in>set fs. title f = t) \<longleftrightarrow> (\<exists>p\<in>set (map titleType fs). fst p = t \<and> True)" for t
    using titled_iff[of fs t "\<lambda>_. True"] by simp
  have all: "(\<forall>f\<in>set fs. title f = t \<longrightarrow> ftype f = v) \<longleftrightarrow>
      \<not> (\<exists>p\<in>set (map titleType fs). fst p = t \<and> snd p \<noteq> v)" for t v
    using titled_iff[of fs t "\<lambda>x. x \<noteq> v"] by blast
  have "((\<exists>f\<in>set fs. title f = ''Schedule Status'') \<longleftrightarrow> jgt (scheduleVarianceOf nd) (Fin 5)) \<and>
   (\<forall>f\<in>set fs. title f = ''Schedule Status'' \<longrightarrow>
      ftype f = (if jgt (scheduleVarianceOf nd) (Fin 10) then ''danger'' else ''warning'')) \<and>
   map title (filter (\<lambda>f. suffix '' Progress Concern'' (title f)) fs)
     = map (\<lambda>ct. toString h (ctName ct) @ '' Progress Concern'')
         (filter behindCostType (costTypeData nd)) \<and>
   map title (filter (\<lambda>f. suffix '' Behind Schedule'' (title f)) fs)
     = map (\<lambda>d. toString h (divName d) @ '' Behind Schedule'')
         (filter behindDivision (divisionData nd)) \<and>
   ((\<exists>f\<in>set fs. title f = ''Budget Concerns'') \<longleftrightarrow> jgt (percentOverage (projectData nd)) (Fin 0)) \<and>
   (\<forall>f\<in>set fs. title f = ''Budget Concerns'' \<longrightarrow>
      ftype f = (if jgt (percentOverage (projectData nd)) (Fin 5) then ''danger'' else ''warning'')) \<and>
   length fs =
     (if jgt (scheduleVarianceOf nd) (Fin 5) then 1 else 0) +
     length (filter behindCostType (costTypeData nd)) +
     length (filter behindDivision (divisionData nd)) +
     (if jgt (percentOverage (projectData nd)) (Fin 0) then 1 else 0)"
    unfolding len ex all titled_filter unfolding T
    by (auto simp: title_facts filter_map comp_def)
  with ret show ?thesis by blast
qed

theorem identifyProjectRedFlags_thresholds_witness:
  "list_all (\<lambda>ct. isString (ctName ct))
     (costTypeData (normalizeBudgetData exampleHost (Some [exampleRow]) (Some exampleMeta))) \<and>
   (\<exists>fs. identifyProjectRedFlags exampleHost
        (normalizeBudgetData exampleHost (Some [exampleRow]) (Some exampleMeta)) = Inr fs \<and>
      map title fs =
        [''Schedule Status'', ''Labor (L) Progress Concern'', ''Div 03 Behind Schedule'',
         ''Budget Concerns''] \<and>
      (\<exists>f\<in>set fs. title f = ''Schedule Status'') \<and>
      length fs = 4) \<and>
   jgt (scheduleVarianceOf (normalizeBudgetData exampleHost (Some [exampleRow]) (Some exampleMeta)))
     (Fin 5) \<and>
   jgt (scheduleVarianceOf roundingDashboard) (Fin 5) \<and>
   (\<exists>fs. identifyProjectRedFlags exampleHost roundingDashboard = Inr fs \<and>
      (\<exists>f\<in>set fs. title f = ''Schedule Status''))"
proof -
  let ?nd = "normalizeBudgetData exampleHost (Some [exampleRow]) (Some exampleMeta)"
  have names: "\<forall>ct\<in>set (costTypeData ?nd). isString (ctName ct)"
    using red_flags_example(3) by (simp add: list_all_iff)
  have fires: "jgt (scheduleVarianceOf ?nd) (Fin 5)"
    by (simp add: red_flags_example(2) jgt_def jlt_def)
  from identifyProjectRedFlags_thresholds[OF names, of exampleHost] fires
  obtain fs where fs: "identifyProjectRedFlags exampleHost ?nd = Inr fs"
    "\<exists>f\<in>set fs. title f = ''Schedule Status''"
    by blast
  from fs(1) have "map title fs =
        [''Schedule Status'', ''Labor (L) Progress Concern'', ''Div 03 Behind Schedule'',
         ''Budget Concerns''] \<and> length fs = 4"
    unfolding red_flags_example(1) by auto
  with fs have first: "\<exists>fs. identifyProjectRedFlags exampleHost ?nd = Inr fs \<and>
      map title fs =
        [''Schedule Status'', ''Labor (L) Progress Concern'', ''Div 03 Behind Schedule'',
         ''Budget Concerns''] \<and>
      (\<exists>f\<in>set fs. title f = ''Schedule Status'') \<and>
      length fs = 4"
    by (intro exI[of _ fs]) simp
  have "\<forall>ct\<in>set (costTypeData roundingDashboard). isString (ctName ct)"
    by (simp add: roundingDashboard_def emptyResult_def)
  from identifyProjectRedFlags_thresholds[OF this, of exampleHost] rounding_example
  have second: "\<exists>fs. identifyProjectRedFlags exampleHost roundingDashboard = Inr fs \<and>
      (\<exists>f\<in>set fs. title f = ''Schedule Status'')"
    by blast
  from first second fires rounding_example red_flags_example(3) show ?thesis
    by blast
qed

section \<open>Variance arithmetic\<close>

lemma divisionStep_set:
  "d \<in> set (divisionStep h cm e acc entry) \<Longrightarrow>
   d \<in> set acc \<or>
   (jgt (sumField h (snd entry) (currentBudget cm)) (Fin 0) \<and>
    divComplete d = toFixed2 (percentCompleteOf h cm (snd entry)) \<and>
    expected d = e \<and>
    divVariance d = toFixed2 (jsub (percentCompleteOf h cm (snd entry)) e))"
  by (auto simp: divisionStep_def Let_def percentCompleteOf_def split: if_splits)

lemma set_objectEntries: "set (objectEntries obj) = set obj"
  by (auto simp: objectEntries_def)

lemma foldl_divisionStep_set:
  "d \<in> set (foldl (divisionStep h cm e) acc g) \<Longrightarrow>
   d \<in> set acc \<or>
   (\<exists>entry\<in>set g.
      jgt (sumField h (snd entry) (currentBudget cm)) (Fin 0) \<and>
      divComplete d = toFixed2 (percentCompleteOf h cm (snd entry)) \<and>
      expected d = e \<and>
      divVariance d = toFixed2 (jsub (percentCompleteOf h cm (snd entry)) e))"
proof (induction g arbitrary: acc)
  case Nil
  then show ?case by simp
next
  case (Cons entry g)
  from Cons.IH[of "divisionStep h cm e acc entry"] Cons.prems
  show ?case using divisionStep_set[of d h cm e acc entry] by auto
qed

lemma processRows_overage:
  assumes "fst (processRows h cm rows res) = None"
  shows "projectedOverage (projectData (snd (processRows h cm rows res))) =
           JStr (formatCurrency h
             (jsub (sumField h rows (projectedCost cm)) (sumField h rows (currentBudget cm))))"
    and "percentOverage (projectData (snd (processRows h cm rows res))) =
           toFixed2 (if jgt (sumField h rows (currentBudget cm)) (Fin 0)
                     then jmul (jdiv (jsub (sumField h rows (projectedCost cm))
                                        (sumField h rows (currentBudget cm)))
                                 (sumField h rows (currentBudget cm))) (Fin 100)
                     else Fin 0)"
  using assms by (auto simp: processRows_def Let_def split: sum.splits)

lemma truthyN_iff: "truthyN x \<longleftrightarrow> x \<noteq> NaN \<and> x \<noteq> Fin 0 \<and> x \<noteq> NZero"
  by (cases x) auto

lemma overage_eval:
  "case processRows exampleHost exampleColumns [exampleRow, secondRow] (emptyResult exampleHost None) of
     (e, res) \<Rightarrow>
       e = None \<and> projectedOverage (projectData res) = JStr ''$100'' \<and>
       percentOverage (projectData res) = toDouble (286 / 100)"
  by code_simp

lemma overage_example:
  "fst (processRows exampleHost exampleColumns [exampleRow, secondRow] (emptyResult exampleHost None))
     = None"
  "projectedOverage (projectData (snd (processRows exampleHost exampleColumns
     [exampleRow, secondRow] (emptyResult exampleHost None)))) = JStr ''$100''"
  "percentOverage (projectData (snd (processRows exampleHost exampleColumns [exampleRow, secondRow]
     (emptyResult exampleHost None)))) = toDouble (286 / 100)"
  using case_prodD[OF overage_eval] by simp_all

lemma item_example: "variance (budgetItem exampleHost exampleColumns exampleRow) = Fin (- 100)"
  by code_simp

text \<open>The values that binary64 gives where exact arithmetic gives 5.01, 14.38 and -35.62.\<close>

lemma overage_row_eval:
  "case processRows exampleHost exampleColumns [overageRow] (emptyResult exampleHost None) of
     (e, res) \<Rightarrow> e = None \<and> percentOverage (projectData res) = Fin 5"
  by code_simp

lemma overage_row_example:
  "percentOverage (projectData (snd (processRows exampleHost exampleColumns [overageRow]
     (emptyResult exampleHost None)))) = Fin 5"
  using case_prodD[OF overage_row_eval] by simp

lemma rounding_rows_example:
  "processDivisionData exampleHost [(''Div 05'', [roundingRow])] exampleColumns (Fin 50) =
     [\<lparr> divName = JStr ''Div 05'', divComplete = toDouble (1437 / 100), expected = Fin 50,
        divVariance = toDouble (- 3563 / 100) \<rparr>]"
  by code_simp+

lemma zero_forecast_example:
  "parseFloat exampleHost (getProp zeroForecastRow (projectedCost exampleColumns)) = Fin 0"
  "budget (budgetItem exampleHost exampleColumns zeroForecastRow) = Fin 1000"
  "projected (budgetItem exampleHost exampleColumns zeroForecastRow) = Fin 1000"
  "variance (budgetItem exampleHost exampleColumns zeroForecastRow) = Fin 0"
  by code_simp+

text \<open>
  C6, as stated, fails for the budget items: a projected-cost cell of 0 parses, to 0, but
  the code takes the item's budget for \<open>projected\<close> all the same. For a budget of 1000 and a
  forecast of 0 the item has \<open>projected = 1000\<close> and \<open>variance = 0\<close>, not 0 and 1000.
\<close>

theorem zero_forecast_takes_budget:
  "parseFloat exampleHost (getProp zeroForecastRow (projectedCost exampleColumns)) = Fin 0 \<and>
   budget (budgetItem exampleHost exampleColumns zeroForecastRow) = Fin 1000 \<and>
   projected (budgetItem exampleHost exampleColumns zeroForecastRow) = Fin 1000 \<and>
   variance (budgetItem exampleHost exampleColumns zeroForecastRow) = Fin 0"
  using zero_forecast_example by simp

text \<open>
  C6, amended. The arithmetic is that of binary64. When the processing block completes, the
  project's \<open>projectedOverage\<close> is \<open>projectedFinalCost - totalBudget\<close> (stored formatted as
  currency) and its \<open>percentOverage\<close> is \<open>(projectedOverage / totalBudget) * 100\<close> when
  \<open>totalBudget > 0\<close> and 0 otherwise (stored rounded to two decimals), the totals being the
  sums of the projected-cost and current-budget columns. Each division entry comes from a
  group with a positive budget and has \<open>variance = percentComplete - expectedComplete\<close>
  rounded to two decimals. Each budget item has \<open>variance = budget - projected\<close>, where
  \<open>projected\<close> is the item's budget when the projected-cost cell does not parse or parses
  to 0, and the parsed cell otherwise.
\<close>

theorem variance_arithmetic:
  "(fst (processRows h cm rows res) = None \<longrightarrow>
      projectedOverage (projectData (snd (processRows h cm rows res))) =
        JStr (formatCurrency h
          (jsub (sumField h rows (projectedCost cm)) (sumField h rows (currentBudget cm)))) \<and>
      percentOverage (projectData (snd (processRows h cm rows res))) =
        toFixed2 (if jgt (sumField h rows (currentBudget cm)) (Fin 0)
                  then jmul (jdiv (jsub (sumField h rows (projectedCost cm))
                                     (sumField h rows (currentBudget cm)))
                              (sumField h rows (currentBudget cm))) (Fin 100)
                  else Fin 0)) \<and>
   (\<forall>d\<in>set (processDivisionData h g cm e). \<exists>entry\<in>set g.
      jgt (sumField h (snd entry) (currentBudget cm)) (Fin 0) \<and>
      divComplete d = toFixed2 (percentCompleteOf h cm (snd entry)) \<and>
      expected d = e \<and>
      divVariance d = toFixed2 (jsub (percentCompleteOf h cm (snd entry)) e)) \<and>
   variance (budgetItem h cm r) = jsub (budget (budgetItem h cm r)) (projected (budgetItem h cm r)) \<and>
   (parseFloat h (getProp r (projectedCost cm)) = NaN \<or>
    parseFloat h (getProp r (projectedCost cm)) = Fin 0 \<or>
    parseFloat h (getProp r (projectedCost cm)) = NZero \<longrightarrow>
      projected (budgetItem h cm r) = budget (budgetItem h cm r)) \<and>
   (parseFloat h (getProp r (projectedCost cm)) \<noteq> NaN \<and>
    parseFloat h (getProp r (projectedCost cm)) \<noteq> Fin 0 \<and>
    parseFloat h (getProp r (projectedCost cm)) \<noteq> NZero \<longrightarrow>
      projected (budgetItem h cm r) = parseFloat h (getProp r (projectedCost cm)))"
proof -
  have div: "\<forall>d\<in>set (processDivisionData h g cm e). \<exists>entry\<in>set g.
      jgt (sumField h (snd entry) (currentBudget cm)) (Fin 0) \<and>
      divComplete d = toFixed2 (percentCompleteOf h cm (snd entry)) \<and>
      expected d = e \<and>
      divVariance d = toFixed2 (jsub (percentCompleteOf h cm (snd entry)) e)"
    using foldl_divisionStep_set[of _ h cm e "[]" "objectEntries g"]
    by (auto simp: processDivisionData_def set_sortBy set_objectEntries)
  have item:
    "variance (budgetItem h cm r) = jsub (budget (budgetItem h cm r)) (projected (budgetItem h cm r))"
    "parseFloat h (getProp r (projectedCost cm)) = NaN \<or>
     parseFloat h (getProp r (projectedCost cm)) = Fin 0 \<or>
     parseFloat h (getProp r (projectedCost cm)) = NZero \<longrightarrow>
      projected (budgetItem h cm r) = budget (budgetItem h cm r)"
    "parseFloat h (getProp r (projectedCost cm)) \<noteq> NaN \<and>
     parseFloat h (getProp r (projectedCost cm)) \<noteq> Fin 0 \<and>
     parseFloat h (getProp r (projectedCost cm)) \<noteq> NZero \<longrightarrow>
      projected (budgetItem h cm r) = parseFloat h (getProp r (projectedCost cm))"
    using truthyN_iff[of "parseFloat h (getProp r (projectedCost cm))"]
    by (auto simp: budgetItem_def Let_def orElseN_def)
  from div item processRows_overage[of h cm rows res] show ?thesis by blast
qed

theorem variance_arithmetic_witness:
  "fst (processRows exampleHost exampleColumns [exampleRow, secondRow] (emptyResult exampleHost None))
     = None \<and>
   projectedOverage (projectData (snd (processRows exampleHost exampleColumns
     [exampleRow, secondRow] (emptyResult exampleHost None)))) = JStr ''$100'' \<and>
   percentOverage (projectData (snd (processRows exampleHost exampleColumns
     [exampleRow, secondRow] (emptyResult exampleHost None)))) = toDouble (286 / 100) \<and>
   percentOverage (projectData (snd (processRows exampleHost exampleColumns [overageRow]
     (emptyResult exampleHost None)))) = Fin 5 \<and>
   map divVariance (processDivisionData exampleHost
     [(''Div 03'', [exampleRow]), (''Div 09'', [secondRow])] exampleColumns (Fin 50))
     = [Fin 30, Fin (- 30)] \<and>
   map divComplete (processDivisionData exampleHost [(''Div 05'', [roundingRow])]
     exampleColumns (Fin 50)) = [toDouble (1437 / 100)] \<and>
   map divVariance (processDivisionData exampleHost [(''Div 05'', [roundingRow])]
     exampleColumns (Fin 50)) = [toDouble (- 3563 / 100)] \<and>
   variance (budgetItem exampleHost exampleColumns exampleRow) = Fin (- 100) \<and>
   projected (budgetItem exampleHost exampleColumns zeroForecastRow) =
     budget (budgetItem exampleHost exampleColumns zeroForecastRow)"
proof -
  from variance_arithmetic[of exampleHost exampleColumns "[exampleRow, secondRow]"
      "emptyResult exampleHost None" "[(''Div 03'', [exampleRow]), (''Div 09'', [secondRow])]"
      "Fin 50" zeroForecastRow] zero_forecast_example(1)
  have "projected (budgetItem exampleHost exampleColumns zeroForecastRow) =
     budget (budgetItem exampleHost exampleColumns zeroForecastRow)"
    by blast
  then show ?thesis
    by (simp add: overage_example item_example overage_row_example division_examples
        rounding_rows_example)
qed

section \<open>The processing block\<close>

lemma timeMetrics_keeps:
  "budgetData (timeMetrics h pm res) = budgetData res"
  "timeData (timeMetrics h pm res) = timeData res"
  "budgetSpentData (timeMetrics h pm res) = budgetSpentData res"
  "costTypeData (timeMetrics h pm res) = costTypeData res"
  "divisionData (timeMetrics h pm res) = divisionData res"
  "totalBudget (projectData (timeMetrics h pm res)) = totalBudget (projectData res)"
  "totalBilled (projectData (timeMetrics h pm res)) = totalBilled (projectData res)"
  "percentBilled (projectData (timeMetrics h pm res)) = percentBilled (projectData res)"
  "projectedFinal (projectData (timeMetrics h pm res)) = projectedFinal (projectData res)"
  "projectedOverage (projectData (timeMetrics h pm res)) = projectedOverage (projectData res)"
  "percentOverage (projectData (timeMetrics h pm res)) = percentOverage (projectData res)"
  "projectName (projectData (timeMetrics h pm res)) = projectName (projectData res)"
  "startDate (projectData (timeMetrics h pm res)) = startDate (projectData res)"
  "endDate (projectData (timeMetrics h pm res)) = endDate (projectData res)"
  "currentDate (projectData (timeMetrics h pm res)) = currentDate (projectData res)"
  by (simp_all add: timeMetrics_def Let_def)

lemma processRows_throws:
  "fst (processRows h cm rows res) = Some e \<Longrightarrow> snd (processRows h cm rows res) = res"
  by (auto simp: processRows_def Let_def split: sum.splits)

lemma tryBlock_processRows:
  "tryBlock h r rs pm res = processRows h (detectAndMapColumns r) (r # rs) (timeMetrics h pm res)"
  by (simp add: tryBlock_def Let_def)

lemma exception_eval:
  "case tryBlock exampleHost numericCodeRow [] (Some exampleMeta)
       (emptyResult exampleHost (Some exampleMeta)) of
     (e, res) \<Rightarrow>
       e = Some (TypeError ''costCode.match is not a function'') \<and>
       daysElapsed (projectData res) = Fin 15 \<and>
       totalDuration (projectData res) = ''1 months'' \<and>
       percentTimeElapsed (projectData res) = Fin 50"
  by code_simp

lemma exception_example:
  "fst (tryBlock exampleHost numericCodeRow [] (Some exampleMeta)
     (emptyResult exampleHost (Some exampleMeta)))
     = Some (TypeError ''costCode.match is not a function'')"
  "daysElapsed (projectData (normalizeBudgetData exampleHost (Some [numericCodeRow])
     (Some exampleMeta))) = Fin 15"
  "totalDuration (projectData (normalizeBudgetData exampleHost (Some [numericCodeRow])
     (Some exampleMeta))) = ''1 months''"
  "percentTimeElapsed (projectData (normalizeBudgetData exampleHost (Some [numericCodeRow])
     (Some exampleMeta))) = Fin 50"
  using case_prodD[OF exception_eval] by (simp_all add: normalize_single)

text \<open>
  C1, as stated, fails: a row whose cost code is a number makes the division grouping throw
  after the time metrics have been written to the record, and the \<open>catch\<close> clause returns
  that record. Here the days elapsed, the duration and the percentage of time elapsed are
  15, "1 months" and 50, not 0, "" and 0.
\<close>

theorem normalizeBudgetData_exception_keeps_time_metrics:
  "fst (tryBlock exampleHost numericCodeRow [] (Some exampleMeta)
     (emptyResult exampleHost (Some exampleMeta)))
     = Some (TypeError ''costCode.match is not a function'') \<and>
   daysElapsed (projectData (normalizeBudgetData exampleHost (Some [numericCodeRow])
     (Some exampleMeta))) = Fin 15 \<and>
   totalDuration (projectData (normalizeBudgetData exampleHost (Some [numericCodeRow])
     (Some exampleMeta))) = ''1 months'' \<and>
   percentTimeElapsed (projectData (normalizeBudgetData exampleHost (Some [numericCodeRow])
     (Some exampleMeta))) = Fin 50 \<and>
   normalizeBudgetData exampleHost (Some [numericCodeRow]) (Some exampleMeta)
     \<noteq> emptyResult exampleHost (Some exampleMeta)"
proof -
  have "daysElapsed (projectData (emptyResult exampleHost (Some exampleMeta))) = Fin 0"
    by (simp add: emptyResult_def)
  then have "normalizeBudgetData exampleHost (Some [numericCodeRow]) (Some exampleMeta)
     \<noteq> emptyResult exampleHost (Some exampleMeta)"
    using exception_example(2) by auto
  then show ?thesis
    using exception_example by simp
qed

text \<open>
  C1, amended. If an exception is thrown inside the processing block, the function returns
  the default record as the time metrics have left it: the budget fields of the project data
  (total budget, total billed, percent billed, projected final, projected overage, percent
  overage) are 0, the name and dates are those taken from the metadata, and the five data
  arrays are empty. The days elapsed, the duration and the percentage of time elapsed are
  the values computed from the metadata; they are 0, "" and 0 when the metadata lacks a
  start or an end date.
\<close>

theorem normalizeBudgetData_on_exception:
  assumes "fst (tryBlock h r rs pm (emptyResult h pm)) = Some e"
  shows "normalizeBudgetData h (Some (r # rs)) pm = timeMetrics h pm (emptyResult h pm) \<and>
    totalBudget (projectData (normalizeBudgetData h (Some (r # rs)) pm)) = JNum (Fin 0) \<and>
    totalBilled (projectData (normalizeBudgetData h (Some (r # rs)) pm)) = JNum (Fin 0) \<and>
    percentBilled (projectData (normalizeBudgetData h (Some (r # rs)) pm)) = Fin 0 \<and>
    projectedFinal (projectData (normalizeBudgetData h (Some (r # rs)) pm)) = JNum (Fin 0) \<and>
    projectedOverage (projectData (normalizeBudgetData h (Some (r # rs)) pm)) = JNum (Fin 0) \<and>
    percentOverage (projectData (normalizeBudgetData h (Some (r # rs)) pm)) = Fin 0 \<and>
    projectName (projectData (normalizeBudgetData h (Some (r # rs)) pm)) =
      orElseS (metaField metaProjectName pm) ''Construction Project'' \<and>
    startDate (projectData (normalizeBudgetData h (Some (r # rs)) pm)) =
      orElseS (metaField metaStartDate pm) [] \<and>
    endDate (projectData (normalizeBudgetData h (Some (r # rs)) pm)) =
      orElseS (metaField metaEndDate pm) [] \<and>
    currentDate (projectData (normalizeBudgetData h (Some (r # rs)) pm)) =
      orElseS (metaField metaCurrentDate pm) (nowLocaleDateString h) \<and>
    budgetData (normalizeBudgetData h (Some (r # rs)) pm) = [] \<and>
    timeData (normalizeBudgetData h (Some (r # rs)) pm) = [] \<and>
    budgetSpentData (normalizeBudgetData h (Some (r # rs)) pm) = [] \<and>
    costTypeData (normalizeBudgetData h (Some (r # rs)) pm) = [] \<and>
    divisionData (normalizeBudgetData h (Some (r # rs)) pm) = [] \<and>
    (\<not> (truthyS (metaField metaStartDate pm) \<and> truthyS (metaField metaEndDate pm)) \<longrightarrow>
       daysElapsed (projectData (normalizeBudgetData h (Some (r # rs)) pm)) = Fin 0 \<and>
       totalDuration (projectData (normalizeBudgetData h (Some (r # rs)) pm)) = [] \<and>
       percentTimeElapsed (projectData (normalizeBudgetData h (Some (r # rs)) pm)) = Fin 0)"
proof -
  have eq: "normalizeBudgetData h (Some (r # rs)) pm = timeMetrics h pm (emptyResult h pm)"
    using assms
      processRows_throws[of h "detectAndMapColumns r" "r # rs" "timeMetrics h pm (emptyResult h pm)" e]
    by (simp add: normalizeBudgetData_def tryBlock_processRows)
  have t: "\<not> (truthyS (metaField metaStartDate pm) \<and> truthyS (metaField metaEndDate pm)) \<Longrightarrow>
     timeMetrics h pm (emptyResult h pm) = emptyResult h pm"
    by (auto simp: timeMetrics_def)
  show ?thesis
    unfolding eq timeMetrics_keeps
    using t by (auto simp: emptyResult_def)
qed

theorem normalizeBudgetData_on_exception_witness:
  "fst (tryBlock exampleHost numericCodeRow [] (Some exampleMeta)
     (emptyResult exampleHost (Some exampleMeta)))
     = Some (TypeError ''costCode.match is not a function'') \<and>
   normalizeBudgetData exampleHost (Some [numericCodeRow]) (Some exampleMeta) =
     timeMetrics exampleHost (Some exampleMeta) (emptyResult exampleHost (Some exampleMeta)) \<and>
   totalBudget (projectData (normalizeBudgetData exampleHost (Some [numericCodeRow])
     (Some exampleMeta))) = JNum (Fin 0) \<and>
   divisionData (normalizeBudgetData exampleHost (Some [numericCodeRow]) (Some exampleMeta)) = []"
  using normalizeBudgetData_on_exception[OF exception_example(1)] exception_example(1)
  by blast














section \<open>Grouping\<close>

lemma fst_in_keys: "(k, b) \<in> set g \<Longrightarrow> k \<in> fst ` set g"
  by force

lemma groupInsert_keys:
  "map fst (groupInsert k x g) = (if k \<in> set (map fst g) then map fst g else map fst g @ [k])"
  by (induction g) (auto dest: fst_in_keys)

lemma groupInsert_distinct: "distinct (map fst g) \<Longrightarrow> distinct (map fst (groupInsert k x g))"
  by (simp add: groupInsert_keys)

lemma groupInsert_map_of:
  "map_of (groupInsert k x g) k' =
     (if k' = k then Some (case map_of g k of None \<Rightarrow> [x] | Some ys \<Rightarrow> ys @ [x])
      else map_of g k')"
  by (induction g) auto

lemma groupByE_groups:
  assumes "groupByE f xs g0 = Inr g" and "distinct (map fst g0)"
  shows "distinct (map fst g) \<and>
    (\<forall>x\<in>set xs. \<exists>k. f x = Inr k) \<and>
    (\<forall>k. map_of g k =
       (case map_of g0 k of
          None \<Rightarrow> if filter (\<lambda>x. f x = Inr k) xs = [] then None
                  else Some (filter (\<lambda>x. f x = Inr k) xs)
        | Some ys \<Rightarrow> Some (ys @ filter (\<lambda>x. f x = Inr k) xs)))"
  using assms
proof (induction xs arbitrary: g0)
  case Nil
  then show ?case by (auto split: option.splits)
next
  case (Cons x xs)
  from Cons.prems(1) obtain k where k: "f x = Inr k"
    and rest: "groupByE f xs (groupInsert k x g0) = Inr g"
    by (auto split: sum.splits)
  from Cons.IH[OF rest groupInsert_distinct[OF Cons.prems(2)]] k
  show ?case
    by (auto simp: groupInsert_map_of split: option.splits)
qed

text \<open>
  What the division grouping does when it does not throw: the groups have distinct names,
  each row is in the group of its division, and a group holds the rows of its division, in
  their order.
\<close>

lemma division_groups:
  assumes "groupByE (divisionOf cm) rows [] = Inr g"
  shows "distinct (map fst g) \<and>
    (\<forall>r\<in>set rows. \<exists>k. divisionOf cm r = Inr k \<and>
       (\<exists>items. map_of g k = Some items \<and> r \<in> set items)) \<and>
    (\<forall>k items. map_of g k = Some items \<longrightarrow>
       items = filter (\<lambda>r. divisionOf cm r = Inr k) rows)"
proof -
  from groupByE_groups[OF assms] have d: "distinct (map fst g)"
    and ok: "\<forall>x\<in>set rows. \<exists>k. divisionOf cm x = Inr k"
    and m: "\<And>k. map_of g k =
      (if filter (\<lambda>x. divisionOf cm x = Inr k) rows = [] then None
       else Some (filter (\<lambda>x. divisionOf cm x = Inr k) rows))"
    by auto
  have "\<exists>k. divisionOf cm r = Inr k \<and> (\<exists>items. map_of g k = Some items \<and> r \<in> set items)"
    if "r \<in> set rows" for r
  proof -
    from ok that obtain k where k: "divisionOf cm r = Inr k" by blast
    with that have "r \<in> set (filter (\<lambda>x. divisionOf cm x = Inr k) rows)" by simp
    then have "filter (\<lambda>x. divisionOf cm x = Inr k) rows \<noteq> []"
      by (auto simp: filter_empty_conv)
    with m[of k] k that show ?thesis by auto
  qed
  moreover have "items = filter (\<lambda>r. divisionOf cm r = Inr k) rows"
    if "map_of g k = Some items" for k items
    using that m[of k] by (auto split: if_splits)
  ultimately show ?thesis using d by blast
qed

text \<open>The division of a row, by the kind of its cost-code cell.\<close>

lemma divisionOf_cases:
  "divisionOf cm r =
     (case getProp r (costCode cm) of
        JStr s \<Rightarrow>
          Inr (if takeWhile isDigit s = [] then ''Other'' else ''Div '' @ takeWhile isDigit s)
      | JNum n \<Rightarrow>
          if truthyN n then Inl (TypeError ''costCode.match is not a function'') else Inr ''Other''
      | JBool b \<Rightarrow>
          if b then Inl (TypeError ''costCode.match is not a function'') else Inr ''Other''
      | JNull \<Rightarrow> Inr ''Other''
      | JUndef \<Rightarrow> Inr ''Other''
      | JObj k \<Rightarrow> Inl (TypeError ''costCode.match is not a function''))"
  by (auto simp: divisionOf_def orElse_def split: jsval.splits list.splits)

lemma numeric_code_eval:
  "case tryBlock exampleHost numericCodeRow [] None (emptyResult exampleHost None) of
     (e, res) \<Rightarrow>
       divisionData res = [] \<and> costTypeData res = [] \<and>
       totalBudget (projectData res) = JNum (Fin 0)"
  by code_simp

lemma numeric_code_division:
  "getProp numericCodeRow (costCode exampleColumns) = JNum (Fin 1000)"
  "divisionOf exampleColumns numericCodeRow
     = Inl (TypeError ''costCode.match is not a function'')"
  "groupByE (divisionOf exampleColumns) [numericCodeRow] []
     = Inl (TypeError ''costCode.match is not a function'')"
  by code_simp+

text \<open>
  C2 at a row whose cost code is a number, as the CSV parser with dynamic typing delivers a
  code of digits only: the iteratee of the division grouping throws, the row is assigned to
  no group, and the record returned has no division or cost-type entry and the total 0.
\<close>

theorem numeric_cost_code_not_grouped:
  "getProp numericCodeRow (costCode (detectAndMapColumns numericCodeRow)) = JNum (Fin 1000) \<and>
   divisionOf (detectAndMapColumns numericCodeRow) numericCodeRow
     = Inl (TypeError ''costCode.match is not a function'') \<and>
   groupByE (divisionOf (detectAndMapColumns numericCodeRow)) [numericCodeRow] []
     = Inl (TypeError ''costCode.match is not a function'') \<and>
   divisionData (normalizeBudgetData exampleHost (Some [numericCodeRow]) None) = [] \<and>
   costTypeData (normalizeBudgetData exampleHost (Some [numericCodeRow]) None) = [] \<and>
   totalBudget (projectData (normalizeBudgetData exampleHost (Some [numericCodeRow]) None))
     = JNum (Fin 0)"
  unfolding detect_numeric normalize_single
  using case_prodD[OF numeric_code_eval] numeric_code_division by simp

section \<open>Guards against division by zero\<close>

lemma toFixed2_zero: "toFixed2 (Fin 0) = Fin 0"
  by code_simp

text \<open>The budget percentages are guarded: without a positive total budget they are 0.\<close>

lemma budget_percentages_guarded:
  assumes "fst (processRows h cm rows res) = None"
    and "\<not> jgt (sumField h rows (currentBudget cm)) (Fin 0)"
  shows "percentBilled (projectData (snd (processRows h cm rows res))) = Fin 0 \<and>
    percentOverage (projectData (snd (processRows h cm rows res))) = Fin 0"
  using assms by (auto simp: processRows_def Let_def toFixed2_zero simp del: toFixed2.simps split: sum.splits)

lemma costTypeStep_set:
  "c \<in> set (costTypeStep h cm e acc entry) \<Longrightarrow>
   c \<in> set acc \<or>
   (jgt (sumField h (snd entry) (currentBudget cm)) (Fin 0) \<and>
    complete c = toFixed2 (percentCompleteOf h cm (snd entry)))"
  by (auto simp: costTypeStep_def Let_def percentCompleteOf_def split: if_splits)

text \<open>A cost-type entry comes from a group with a positive budget.\<close>

lemma processCostTypeData_guarded:
  "c \<in> set (foldl (costTypeStep h cm e) acc g) \<Longrightarrow>
   c \<in> set acc \<or>
   (\<exists>entry\<in>set g.
      jgt (sumField h (snd entry) (currentBudget cm)) (Fin 0) \<and>
      complete c = toFixed2 (percentCompleteOf h cm (snd entry)))"
proof (induction g arbitrary: acc)
  case Nil
  then show ?case by simp
next
  case (Cons entry g)
  from Cons.IH[of "costTypeStep h cm e acc entry"] Cons.prems
  show ?case using costTypeStep_set[of c h cm e acc entry] by auto
qed

lemma zero_duration_eval:
  "case tryBlock exampleHost exampleRow [] (Some zeroDurationMeta)
       (emptyResult exampleHost (Some zeroDurationMeta)) of
     (e, res) \<Rightarrow>
       e = None \<and> daysElapsed (projectData res) = Fin 15 \<and>
       percentTimeElapsed (projectData res) = PInf"
  by code_simp

lemma zero_duration_arith:
  "jceil (jdiv (jsub (dateValue exampleHost ''2024-01-01'') (dateValue exampleHost ''2024-01-01''))
     (Fin (1000 * 60 * 60 * 24))) = Fin 0"
  "jdiv (Fin 15) (Fin 0) = PInf"
  by code_simp+

text \<open>
  C7 at a project that starts and ends on the same day: the total number of days is 0, the
  percentage of time elapsed is computed as \<open>(15 / 0) * 100\<close> with no guard, and the
  record returned holds \<open>Infinity\<close>.
\<close>

theorem zero_duration_divides_by_zero:
  "fst (tryBlock exampleHost exampleRow [] (Some zeroDurationMeta)
     (emptyResult exampleHost (Some zeroDurationMeta))) = None \<and>
   jceil (jdiv (jsub (dateValue exampleHost ''2024-01-01'') (dateValue exampleHost ''2024-01-01''))
     (Fin (1000 * 60 * 60 * 24))) = Fin 0 \<and>
   daysElapsed (projectData (normalizeBudgetData exampleHost (Some [exampleRow])
     (Some zeroDurationMeta))) = Fin 15 \<and>
   jdiv (Fin 15) (Fin 0) = PInf \<and>
   percentTimeElapsed (projectData (normalizeBudgetData exampleHost (Some [exampleRow])
     (Some zeroDurationMeta))) = PInf"
  using case_prodD[OF zero_duration_eval] zero_duration_arith by (simp add: normalize_single)

end
